theory Spec2Isabelle
  imports Main
begin

section \<open>Python strings\<close>

text \<open>
  A Python \<^verbatim>\<open>str\<close> is a sequence of Unicode code points and \<^verbatim>\<open>len\<close> counts code
  points, so a string is a list of natural numbers here. \<open>lit\<close> turns an ASCII
  literal into its code points; a character outside ASCII is written as its code point.
\<close>

type_synonym pychar = nat
type_synonym pystr = "pychar list"

definition lit :: "string \<Rightarrow> pystr" where
  "lit s = map of_char s"

text \<open>
  \<^verbatim>\<open>str.isspace\<close> on one code point, as \<^verbatim>\<open>str.strip()\<close> without arguments uses it:
  U+0009..U+000D, U+001C..U+0020, U+0085, U+00A0, U+1680, U+2000..U+200A, U+2028,
  U+2029, U+202F, U+205F and U+3000.
\<close>

definition isspace :: "pychar \<Rightarrow> bool" where
  "isspace c \<longleftrightarrow>
     (9 \<le> c \<and> c \<le> 13) \<or> (28 \<le> c \<and> c \<le> 32) \<or> c = 133 \<or> c = 160 \<or> c = 5760 \<or>
     (8192 \<le> c \<and> c \<le> 8202) \<or> c = 8232 \<or> c = 8233 \<or> c = 8239 \<or> c = 8287 \<or> c = 12288"

text \<open>\<^verbatim>\<open>s.strip()\<close>: leading and trailing whitespace removed.\<close>

definition strip :: "pystr \<Rightarrow> pystr" where
  "strip s = rev (dropWhile isspace (rev (dropWhile isspace s)))"

text \<open>
  \<^verbatim>\<open>s.split(sep)\<close> for a separator of one character: the pieces between the
  separators, empty pieces kept; the empty string gives one empty piece.
\<close>

fun split_on :: "pychar \<Rightarrow> pystr \<Rightarrow> pystr list" where
  "split_on sep [] = [[]]"
| "split_on sep (c # cs) =
     (let r = split_on sep cs in if c = sep then [] # r else (c # hd r) # tl r)"

text \<open>\<^verbatim>\<open>sep.join(items)\<close>.\<close>

fun join :: "pystr \<Rightarrow> pystr list \<Rightarrow> pystr" where
  "join sep [] = []"
| "join sep [x] = x"
| "join sep (x # y # ys) = x @ sep @ join sep (y # ys)"

abbreviation semicolon :: pychar where "semicolon \<equiv> 59"
abbreviation newline :: pychar where "newline \<equiv> 10"

text \<open>
  \<^verbatim>\<open>s.startswith(pat)\<close>, the number of positions of \<open>s\<close> at which \<open>pat\<close> occurs, and
  \<^verbatim>\<open>pat in s\<close>.
\<close>

fun starts_with :: "pystr \<Rightarrow> pystr \<Rightarrow> bool" where
  "starts_with [] s = True"
| "starts_with (p # ps) [] = False"
| "starts_with (p # ps) (c # cs) = (p = c \<and> starts_with ps cs)"

fun occurrences :: "pystr \<Rightarrow> pystr \<Rightarrow> nat" where
  "occurrences pat [] = 0"
| "occurrences pat (c # cs) = (if starts_with pat (c # cs) then 1 else 0) + occurrences pat cs"

fun contains :: "pystr \<Rightarrow> pystr \<Rightarrow> bool" where
  "contains pat [] = (pat = [])"
| "contains pat (c # cs) = (starts_with pat (c # cs) \<or> contains pat cs)"

section \<open>Semicolon-separated lists\<close>

text \<open>
  \<^verbatim>\<open>
  def parse_semicolon_list(value: str) -> List[str]:
      if not value:
          return []
      return [item.strip() for item in value.split(";") if item.strip()]
  \<close>
\<close>

definition parse_semicolon_list :: "pystr \<Rightarrow> pystr list" where
  "parse_semicolon_list v =
     (if v = [] then []
      else map strip (filter (\<lambda>item. strip item \<noteq> []) (split_on semicolon v)))"

section \<open>The chunker\<close>

text \<open>
  \<^verbatim>\<open>
  def chunk_text(text: str, target_chars: int = 7000) -> List[str]:
      if not text:
          return []
      paragraphs = [p.strip() for p in text.split("\n") if p.strip()]
      chunks: List[str] = []
      buffer = ""
      for paragraph in paragraphs:
          candidate = f"{buffer}\n{paragraph}".strip() if buffer else paragraph
          if len(candidate) <= target_chars:
              buffer = candidate
          else:
              if buffer:
                  chunks.append(buffer)
              buffer = paragraph
      if buffer:
          chunks.append(buffer)
      return chunks
  \<close>
  The loop's state is the pair of \<open>chunks\<close> and \<open>buffer\<close>; \<open>target_chars\<close> is a Python
  integer, so it may be zero or negative.
\<close>

definition paragraphs :: "pystr \<Rightarrow> pystr list" where
  "paragraphs text = map strip (filter (\<lambda>p. strip p \<noteq> []) (split_on newline text))"

fun chunk_loop :: "int \<Rightarrow> pystr list \<Rightarrow> pystr list \<Rightarrow> pystr \<Rightarrow> pystr list \<times> pystr" where
  "chunk_loop target_chars [] chunks buffer = (chunks, buffer)"
| "chunk_loop target_chars (paragraph # rest) chunks buffer =
     (let candidate =
        (if buffer \<noteq> [] then strip (buffer @ [newline] @ paragraph) else paragraph)
      in if int (length candidate) \<le> target_chars
         then chunk_loop target_chars rest chunks candidate
         else chunk_loop target_chars rest
                (if buffer \<noteq> [] then chunks @ [buffer] else chunks) paragraph)"

definition chunk_text :: "pystr \<Rightarrow> int \<Rightarrow> pystr list" where
  "chunk_text text target_chars =
     (if text = [] then []
      else (case chunk_loop target_chars (paragraphs text) [] [] of
              (chunks, buffer) \<Rightarrow> if buffer \<noteq> [] then chunks @ [buffer] else chunks))"

text \<open>
  Notions for stating the loop invariant: a string is \<open>trimmed\<close> when it is non-empty
  with no whitespace at either end; \<open>flush\<close> is the final \<^verbatim>\<open>if buffer: chunks.append(buffer)\<close>;
  \<open>lines_of\<close> splits every chunk at its newlines and concatenates the pieces.
\<close>

definition trimmed :: "pystr \<Rightarrow> bool" where
  "trimmed s \<longleftrightarrow> s \<noteq> [] \<and> \<not> isspace (hd s) \<and> \<not> isspace (last s)"

definition flush :: "pystr list \<Rightarrow> pystr \<Rightarrow> pystr list" where
  "flush chunks buffer = (if buffer \<noteq> [] then chunks @ [buffer] else chunks)"

definition lines_of :: "pystr list \<Rightarrow> pystr list" where
  "lines_of chunks = concat (map (split_on newline) chunks)"

section \<open>Meeting metadata\<close>

text \<open>
  \<^verbatim>\<open>
  @dataclass
  class MeetingMetadata:
      titel: str = "Sitzungsprotokoll"
      datum: Optional[str] = None
      ort: Optional[str] = None
      startzeit: Optional[str] = None
      endzeit: Optional[str] = None
      moderation: Optional[str] = None
      protokoll: Optional[str] = None
      teilnehmer: List[str] = field(default_factory=list)
      gaeste: List[str] = field(default_factory=list)
      agenda: List[str] = field(default_factory=list)
      ziele: List[str] = field(default_factory=list)
      hinweise: List[str] = field(default_factory=list)
  \<close>
  The record holds the values of the fields at their declared types.
\<close>

record MeetingMetadata =
  titel :: pystr
  datum :: "pystr option"
  ort :: "pystr option"
  startzeit :: "pystr option"
  endzeit :: "pystr option"
  moderation :: "pystr option"
  protokoll :: "pystr option"
  teilnehmer :: "pystr list"
  gaeste :: "pystr list"
  agenda :: "pystr list"
  ziele :: "pystr list"
  hinweise :: "pystr list"

text \<open>
  The values of a \<^verbatim>\<open>Dict[str, Any]\<close> that the metadata code reads and writes:
  \<^verbatim>\<open>None\<close>, a string, or a list of strings.
\<close>

datatype pyval = PNone | PStr pystr | PList "pystr list"

type_synonym pydict = "pystr \<rightharpoonup> pyval"

fun of_optional :: "pystr option \<Rightarrow> pyval" where
  "of_optional None = PNone"
| "of_optional (Some s) = PStr s"

text \<open>
  \<^verbatim>\<open>
  def to_dict(self) -> Dict[str, Any]:
      return {
          "titel": self.titel,
          "datum": self.datum,
          "ort": self.ort,
          "startzeit": self.startzeit,
          "endzeit": self.endzeit,
          "moderation": self.moderation,
          "protokoll": self.protokoll,
          "teilnehmer": list(self.teilnehmer),
          "gaeste": list(self.gaeste),
          "agenda": list(self.agenda),
          "ziele": list(self.ziele),
          "hinweise": list(self.hinweise),
      }
  \<close>
\<close>

definition to_dict :: "MeetingMetadata \<Rightarrow> pydict" where
  "to_dict self =
     [lit ''titel'' \<mapsto> PStr (titel self),
      lit ''datum'' \<mapsto> of_optional (datum self),
      lit ''ort'' \<mapsto> of_optional (ort self),
      lit ''startzeit'' \<mapsto> of_optional (startzeit self),
      lit ''endzeit'' \<mapsto> of_optional (endzeit self),
      lit ''moderation'' \<mapsto> of_optional (moderation self),
      lit ''protokoll'' \<mapsto> of_optional (protokoll self),
      lit ''teilnehmer'' \<mapsto> PList (teilnehmer self),
      lit ''gaeste'' \<mapsto> PList (gaeste self),
      lit ''agenda'' \<mapsto> PList (agenda self),
      lit ''ziele'' \<mapsto> PList (ziele self),
      lit ''hinweise'' \<mapsto> PList (hinweise self)]"

text \<open>\<^verbatim>\<open>payload.get(key, default)\<close>, Python's truth value, and \<^verbatim>\<open>a or b\<close>.\<close>

definition dict_get :: "pydict \<Rightarrow> pystr \<Rightarrow> pyval \<Rightarrow> pyval" where
  "dict_get payload key dflt = (case payload key of None \<Rightarrow> dflt | Some v \<Rightarrow> v)"

fun truthy :: "pyval \<Rightarrow> bool" where
  "truthy PNone = False"
| "truthy (PStr s) = (s \<noteq> [])"
| "truthy (PList xs) = (xs \<noteq> [])"

definition py_or :: "pyval \<Rightarrow> pyval \<Rightarrow> pyval" where
  "py_or a b = (if truthy a then a else b)"

text \<open>
  Python does not check the field types of a dataclass. \<open>from_dict\<close> gives \<open>None\<close>
  where the object built would hold a value outside the declared type of its field (a
  list as \<^verbatim>\<open>titel\<close>, say); \<^verbatim>\<open>list(x)\<close> of a string is the list of its characters.
\<close>

fun as_str :: "pyval \<Rightarrow> pystr option" where
  "as_str (PStr s) = Some s"
| "as_str _ = None"

fun as_optional_str :: "pyval \<Rightarrow> pystr option option" where
  "as_optional_str PNone = Some None"
| "as_optional_str (PStr s) = Some (Some s)"
| "as_optional_str (PList xs) = None"

fun py_list :: "pyval \<Rightarrow> pystr list option" where
  "py_list (PList xs) = Some xs"
| "py_list (PStr s) = Some (map (\<lambda>c. [c]) s)"
| "py_list PNone = None"

text \<open>
  \<^verbatim>\<open>
  @classmethod
  def from_dict(cls, payload: Dict[str, Any]) -> "MeetingMetadata":
      return cls(
          titel=payload.get("titel", "Sitzungsprotokoll"),
          datum=payload.get("datum") or None,
          ort=payload.get("ort") or None,
          startzeit=payload.get("startzeit") or None,
          endzeit=payload.get("endzeit") or None,
          moderation=payload.get("moderation") or None,
          protokoll=payload.get("protokoll") or None,
          teilnehmer=list(payload.get("teilnehmer", []) or []),
          gaeste=list(payload.get("gaeste", []) or []),
          agenda=list(payload.get("agenda", []) or []),
          ziele=list(payload.get("ziele", []) or []),
          hinweise=list(payload.get("hinweise", []) or []),
      )
  \<close>
\<close>

definition optional_field :: "pydict \<Rightarrow> pystr \<Rightarrow> pystr option option" where
  "optional_field payload key = as_optional_str (py_or (dict_get payload key PNone) PNone)"

definition list_field :: "pydict \<Rightarrow> pystr \<Rightarrow> pystr list option" where
  "list_field payload key = py_list (py_or (dict_get payload key (PList [])) (PList []))"

definition from_dict :: "pydict \<Rightarrow> MeetingMetadata option" where
  "from_dict payload =
     (case as_str (dict_get payload (lit ''titel'') (PStr (lit ''Sitzungsprotokoll''))) of
        None \<Rightarrow> None
      | Some t \<Rightarrow>
     (case optional_field payload (lit ''datum'') of None \<Rightarrow> None | Some d \<Rightarrow>
     (case optional_field payload (lit ''ort'') of None \<Rightarrow> None | Some ot \<Rightarrow>
     (case optional_field payload (lit ''startzeit'') of None \<Rightarrow> None | Some sz \<Rightarrow>
     (case optional_field payload (lit ''endzeit'') of None \<Rightarrow> None | Some ez \<Rightarrow>
     (case optional_field payload (lit ''moderation'') of None \<Rightarrow> None | Some mo \<Rightarrow>
     (case optional_field payload (lit ''protokoll'') of None \<Rightarrow> None | Some pr \<Rightarrow>
     (case list_field payload (lit ''teilnehmer'') of None \<Rightarrow> None | Some tn \<Rightarrow>
     (case list_field payload (lit ''gaeste'') of None \<Rightarrow> None | Some ga \<Rightarrow>
     (case list_field payload (lit ''agenda'') of None \<Rightarrow> None | Some ag \<Rightarrow>
     (case list_field payload (lit ''ziele'') of None \<Rightarrow> None | Some zi \<Rightarrow>
     (case list_field payload (lit ''hinweise'') of None \<Rightarrow> None | Some hi \<Rightarrow>
        Some \<lparr>titel = t, datum = d, ort = ot, startzeit = sz, endzeit = ez,
              moderation = mo, protokoll = pr, teilnehmer = tn, gaeste = ga,
              agenda = ag, ziele = zi, hinweise = hi\<rparr>))))))))))))"

text \<open>What \<^verbatim>\<open>x or None\<close> makes of an optional string: the empty string becomes \<^verbatim>\<open>None\<close>.\<close>

fun or_none :: "pystr option \<Rightarrow> pystr option" where
  "or_none None = None"
| "or_none (Some s) = (if s = [] then None else Some s)"

text \<open>
  Two records for concrete evaluation: one as the command line builds it, and one whose
  \<^verbatim>\<open>datum\<close> is the empty string, as the interactive form leaves an optional field when
  the user enters nothing (\<^verbatim>\<open>prompt_with_default(..., meta.startzeit or "")\<close>).
\<close>

definition example_metadata :: MeetingMetadata where
  "example_metadata =
     \<lparr>titel = lit ''Sitzungsprotokoll'', datum = Some (lit ''2025-10-01''), ort = None,
      startzeit = None, endzeit = None, moderation = None, protokoll = None,
      teilnehmer = [lit ''A'', lit ''B''], gaeste = [], agenda = [], ziele = [],
      hinweise = []\<rparr>"

definition empty_date_metadata :: MeetingMetadata where
  "empty_date_metadata =
     \<lparr>titel = lit ''Sitzungsprotokoll'', datum = Some [], ort = None,
      startzeit = None, endzeit = None, moderation = None, protokoll = None,
      teilnehmer = [], gaeste = [], agenda = [], ziele = [], hinweise = []\<rparr>"

section \<open>The dashboard\<close>

text \<open>
  \<^verbatim>\<open>
  def _render_card(*, title, description, command, documentation) -> str:
      doc_link = (
          f'<a class="button" href="{documentation}">Dokumentation</a>' if documentation else ""
      )
      command_html = f"<code>{command}</code>"
      actions = " ".join(filter(None, [doc_link, command_html]))
      return f"""
        <article>
          <h2>{title}</h2>
          <p>{description}</p>
          <div class=\"actions\">{actions}</div>
        </article>
      """
  \<close>
  \<^verbatim>\<open>filter(None, items)\<close> keeps the non-empty strings. The card is defined before the
  record of its caller, so that the parameters keep the names of the source.
\<close>

definition doc_link :: "pystr option \<Rightarrow> pystr" where
  \<open>doc_link documentation =
     (case documentation of
        None \<Rightarrow> []
      | Some d \<Rightarrow>
          if d \<noteq> [] then lit ''<a class="button" href="'' @ d @ lit ''">Dokumentation</a>''
          else [])\<close>

definition render_card :: "pystr \<Rightarrow> pystr \<Rightarrow> pystr \<Rightarrow> pystr option \<Rightarrow> pystr" where
  \<open>render_card title description command documentation =
     (let command_html = lit ''<code>'' @ command @ lit ''</code>'';
          actions = join (lit '' '') (filter (\<lambda>s. s \<noteq> []) [doc_link documentation, command_html])
      in lit ''
      <article>
        <h2>'' @ title @ lit ''</h2>
        <p>'' @ description @ lit ''</p>
        <div class="actions">'' @ actions @ lit ''</div>
      </article>
    '')\<close>

text \<open>
  \<^verbatim>\<open>
  @dataclass(slots=True)
  class ModuleEntry:
      name: str
      description: str
      command: str
      documentation: str | None = None
  \<close>
\<close>

record ModuleEntry =
  name :: pystr
  description :: pystr
  command :: pystr
  documentation :: "pystr option"

definition default_modules :: "ModuleEntry list" where
  \<open>default_modules =
     [\<lparr>name = lit ''Sitzungsprotokolle'',
       description =
         lit ''Erstellt aus Audioaufnahmen automatisch strukturierte Sitzungsprotokolle '' @
         lit ''mithilfe von Whisper und GPT.'',
       command = lit ''python -m political_party_kit.meeting_minutes'',
       documentation = Some (lit ''README.md#meeting-minutes-module'')\<rparr>]\<close>

text \<open>
  The page template of \<^verbatim>\<open>render_dashboard\<close>, before and after \<^verbatim>\<open>{module_cards}\<close>, with the
  doubled braces of the f-string written as the single braces they produce.
\<close>

definition page_head :: pystr where
  \<open>page_head =
   lit ''
<!DOCTYPE html>
<html lang="de">
  <head>
    <meta charset="utf-8">
    <meta name="viewport" content="width=device-width, initial-scale=1">
    <title>Political Party Kit '' @
   [8211] @
   lit '' Dashboard</title>
    <style>
      :root {
        color-scheme: light dark;
        font-family: system-ui, -apple-system, BlinkMacSystemFont, "Segoe UI", sans-serif;
        background: #f6f7fb;
        color: #1c1c1c;
      }
      body {
        margin: 0;
        padding: 2rem 1.5rem 4rem;
        background: linear-gradient(135deg, #f6f7fb 0%, #e5e9ff 100%);
      }
      h1 {
        text-align: center;
        margin-bottom: 0.5rem;
      }
      p.lead {
        text-align: center;
        margin-top: 0;
        margin-bottom: 2rem;
        color: #444;
        max-width: 48rem;
        margin-left: auto;
        margin-right: auto;
      }
      main {
        display: grid;
        gap: 1.5rem;
        max-width: 72rem;
        margin: 0 auto;
        grid-template-columns: repeat(auto-fit, minmax(18rem, 1fr));
      }
      article {
        background: white;
        border-radius: 1rem;
        padding: 1.5rem;
        box-shadow: 0 20px 45px rgba(41, 51, 76, 0.15);
        display: flex;
        flex-direction: column;
        gap: 1rem;
      }
      article h2 {
        margin: 0;
        font-size: 1.4rem;
      }
      article p {
        margin: 0;
        flex-grow: 1;
        line-height: 1.5;
      }
      .actions {
        display: flex;
        flex-wrap: wrap;
        gap: 0.75rem;
      }
      .actions a, .actions code {
        font-size: 0.95rem;
      }
      a.button {
        background: #1c4ed8;
        color: white;
        text-decoration: none;
        padding: 0.6rem 1rem;
        border-radius: 999px;
        font-weight: 600;
        transition: background 0.15s ease-in-out, transform 0.15s ease-in-out;
      }
      a.button:hover {
        background: #173da8;
        transform: translateY(-1px);
      }
      code {
        background: rgba(28, 78, 216, 0.08);
        color: #0f1f4b;
        padding: 0.4rem 0.6rem;
        border-radius: 0.5rem;
        display: inline-flex;
        align-items: center;
      }
      footer {
        text-align: center;
        margin-top: 3rem;
        color: #555;
        font-size: 0.9rem;
      }
      @media (prefers-color-scheme: dark) {
        :root {
          background: #111827;
          color: #f9fafb;
        }
        body {
          background: radial-gradient(circle at top, #1f2937 0%, #0f172a 70%);
        }
        article {
          background: rgba(17, 24, 39, 0.95);
          box-shadow: 0 20px 45px rgba(7, 11, 19, 0.35);
        }
        article p {
          color: #e5e7eb;
        }
        a.button {
          background: #2563eb;
        }
        a.button:hover {
          background: #1d4ed8;
        }
        code {
          background: rgba(37, 99, 235, 0.25);
          color: #bfdbfe;
        }
        footer {
          color: #9ca3af;
        }
      }
    </style>
  </head>
  <body>
    <h1>Political Party Kit</h1>
    <p class="lead">
      Zentrale Anlaufstelle f'' @
   [252] @
   lit ''r alle Module des Toolkits. W'' @
   [228] @
   lit ''hle ein Modul aus, um direkt
      in den jeweiligen Workflow zu starten.
    </p>
    <main>
      ''\<close>

definition page_tail :: pystr where
  \<open>page_tail =
   lit ''
    </main>
    <footer>
      Weitere Module lassen sich problemlos erg'' @
   [228] @
   lit ''nzen, indem sie in der Konfiguration des Dashboards registriert werden.
    </footer>
  </body>
</html>
''\<close>

text \<open>
  \<^verbatim>\<open>
  def render_dashboard(modules: Sequence[ModuleEntry] | None = None) -> str:
      modules = list(modules or default_modules())
      module_cards = "\n".join(
          _render_card(
              title=module.name,
              description=module.description,
              command=module.command,
              documentation=module.documentation,
          )
          for module in modules
      )
      return f"""...{module_cards}..."""
  \<close>
\<close>

definition modules_or_default :: "ModuleEntry list option \<Rightarrow> ModuleEntry list" where
  "modules_or_default modules =
     (case modules of None \<Rightarrow> default_modules
      | Some ms \<Rightarrow> if ms \<noteq> [] then ms else default_modules)"

definition module_card :: "ModuleEntry \<Rightarrow> pystr" where
  "module_card module = render_card (name module) (description module) (command module)
     (documentation module)"

definition render_dashboard :: "ModuleEntry list option \<Rightarrow> pystr" where
  "render_dashboard modules =
     (let module_cards = join [newline] (map module_card (modules_or_default modules))
      in page_head @ module_cards @ page_tail)"

text \<open>
  \<^verbatim>\<open>
  def write_dashboard(output: str | Path, modules: Iterable[ModuleEntry] | None = None) -> Path:
      target = Path(output).expanduser().resolve()
      target.write_text(render_dashboard(list(modules) if modules else None), encoding="utf-8")
      return target
  \<close>
  The file system is a map from paths to the text of the files; how a path resolves
  (home directory, working directory, links) is a parameter. The result is the target
  path and the file system after the write.
\<close>

type_synonym filesystem = "pystr \<rightharpoonup> pystr"

definition write_dashboard ::
  "(pystr \<Rightarrow> pystr) \<Rightarrow> filesystem \<Rightarrow> pystr \<Rightarrow> ModuleEntry list option \<Rightarrow> pystr \<times> filesystem" where
  "write_dashboard resolve fs output modules =
     (let target = resolve output;
          arg = (case modules of None \<Rightarrow> None
                 | Some ms \<Rightarrow> if ms \<noteq> [] then Some ms else None)
      in (target, fs(target \<mapsto> render_dashboard arg)))"

text \<open>
  For the properties of the page: a text is \<open>plain_text\<close> when it has no \<^verbatim>\<open><\<close>, so that
  it opens no tag of its own, and a module is plain when all its fields are.
\<close>

definition plain_text :: "pystr \<Rightarrow> bool" where
  "plain_text s \<longleftrightarrow> 60 \<notin> set s"

definition plain_module :: "ModuleEntry \<Rightarrow> bool" where
  "plain_module m \<longleftrightarrow>
     plain_text (name m) \<and> plain_text (description m) \<and> plain_text (command m) \<and>
     (case documentation m of None \<Rightarrow> True | Some d \<Rightarrow> plain_text d)"

text \<open>
  Module lists for concrete evaluation: two plain modules, the second without a
  documentation link, and a module whose name is itself an opening tag.
\<close>

definition example_modules :: "ModuleEntry list" where
  "example_modules =
     [\<lparr>name = lit ''Protokolle'', description = lit ''Sitzungen'',
       command = lit ''python -m a'', documentation = Some (lit ''README.md'')\<rparr>,
      \<lparr>name = lit ''Dashboard'', description = lit ''Seite'',
       command = lit ''python -m b'', documentation = None\<rparr>]"

definition markup_module :: ModuleEntry where
  "markup_module =
     \<lparr>name = lit ''<article>'', description = lit ''d'', command = lit ''c'',
      documentation = None\<rparr>"

section \<open>Headers built from the metadata\<close>

text \<open>
  \<^verbatim>\<open>
  def human_join(items: Iterable[str]) -> str:
      clean = [item.strip() for item in items if item and item.strip()]
      return ", ".join(clean)
  \<close>
\<close>

definition human_join :: "pystr list \<Rightarrow> pystr" where
  "human_join items =
     join (lit '', '') (map strip (filter (\<lambda>item. item \<noteq> [] \<and> strip item \<noteq> []) items))"

text \<open>
  An optional string in a condition (\<^verbatim>\<open>if self.datum:\<close>) or under \<^verbatim>\<open>filter(None, ...)\<close>
  counts when it is neither \<^verbatim>\<open>None\<close> nor empty; \<open>opt_text\<close> is its text, empty for
  \<^verbatim>\<open>None\<close>. \<open>time_slot\<close> is \<^verbatim>\<open>" - ".join(filter(None, [self.startzeit, self.endzeit]))\<close>.
\<close>

fun opt_text :: "pystr option \<Rightarrow> pystr" where
  "opt_text None = []"
| "opt_text (Some s) = s"

definition time_slot :: "MeetingMetadata \<Rightarrow> pystr" where
  "time_slot self =
     join (lit '' - '')
       (filter (\<lambda>s. s \<noteq> []) [opt_text (startzeit self), opt_text (endzeit self)])"

text \<open>
  \<^verbatim>\<open>
  def to_docx_header_fields(self) -> List[str]:
      entries: List[str] = []
      if self.datum:
          entries.append(f"Datum: {self.datum}")
      slot = " - ".join(filter(None, [self.startzeit, self.endzeit]))
      if slot:
          entries.append(f"Zeitfenster: {slot}")
      if self.ort:
          entries.append(f"Ort: {self.ort}")
      if self.moderation:
          entries.append(f"Moderation: {self.moderation}")
      if self.protokoll:
          entries.append(f"Protokoll: {self.protokoll}")
      if self.teilnehmer:
          entries.append(f"Teilnehmer: {human_join(self.teilnehmer)}")
      if self.gaeste:
          entries.append(f"G\"aste: {human_join(self.gaeste)}")
      return entries
  \<close>
  (\<^verbatim>\<open>\"a\<close> stands for U+00E4 and \<^verbatim>\<open>\"u\<close> for U+00FC in the quoted source.)
\<close>

definition to_docx_header_fields :: "MeetingMetadata \<Rightarrow> pystr list" where
  "to_docx_header_fields self =
     (if opt_text (datum self) \<noteq> [] then [lit ''Datum: '' @ opt_text (datum self)] else []) @
     (if time_slot self \<noteq> [] then [lit ''Zeitfenster: '' @ time_slot self] else []) @
     (if opt_text (ort self) \<noteq> [] then [lit ''Ort: '' @ opt_text (ort self)] else []) @
     (if opt_text (moderation self) \<noteq> []
      then [lit ''Moderation: '' @ opt_text (moderation self)] else []) @
     (if opt_text (protokoll self) \<noteq> []
      then [lit ''Protokoll: '' @ opt_text (protokoll self)] else []) @
     (if teilnehmer self \<noteq> []
      then [lit ''Teilnehmer: '' @ human_join (teilnehmer self)] else []) @
     (if gaeste self \<noteq> []
      then [lit ''G'' @ [228] @ lit ''ste: '' @ human_join (gaeste self)] else [])"

text \<open>
  \<^verbatim>\<open>
  def to_prompt_header(self) -> str:
      lines: List[str] = []
      if self.titel:
          lines.append(f"Titel: {self.titel}")
      if self.datum:
          lines.append(f"Datum: {self.datum}")
      slot = " - ".join(filter(None, [self.startzeit, self.endzeit]))
      if slot:
          lines.append(f"Zeitfenster: {slot}")
      if self.ort:
          lines.append(f"Ort: {self.ort}")
      if self.moderation:
          lines.append(f"Moderation: {self.moderation}")
      if self.protokoll:
          lines.append(f"Protokollf\"uhrung: {self.protokoll}")
      if self.teilnehmer:
          lines.append(f"Teilnehmer: {human_join(self.teilnehmer)}")
      if self.gaeste:
          lines.append(f"G\"aste: {human_join(self.gaeste)}")
      if self.ziele:
          lines.append("Ziele:")
          lines.extend([f"  - {goal}" for goal in self.ziele])
      if self.agenda:
          lines.append("Tagesordnung:")
          lines.extend([f"  - {item}" for item in self.agenda])
      if self.hinweise:
          lines.append("Hinweise:")
          lines.extend([f"  - {note}" for note in self.hinweise])
      return "\n".join(lines)
  \<close>
\<close>

definition bullet_lines :: "pystr \<Rightarrow> pystr list \<Rightarrow> pystr list" where
  "bullet_lines heading items =
     (if items \<noteq> [] then heading # map (\<lambda>item. lit ''  - '' @ item) items else [])"

definition to_prompt_header :: "MeetingMetadata \<Rightarrow> pystr" where
  "to_prompt_header self =
     join [newline]
      ((if titel self \<noteq> [] then [lit ''Titel: '' @ titel self] else []) @
       (if opt_text (datum self) \<noteq> [] then [lit ''Datum: '' @ opt_text (datum self)] else []) @
       (if time_slot self \<noteq> [] then [lit ''Zeitfenster: '' @ time_slot self] else []) @
       (if opt_text (ort self) \<noteq> [] then [lit ''Ort: '' @ opt_text (ort self)] else []) @
       (if opt_text (moderation self) \<noteq> []
        then [lit ''Moderation: '' @ opt_text (moderation self)] else []) @
       (if opt_text (protokoll self) \<noteq> []
        then [lit ''Protokollf'' @ [252] @ lit ''hrung: '' @ opt_text (protokoll self)] else []) @
       (if teilnehmer self \<noteq> []
        then [lit ''Teilnehmer: '' @ human_join (teilnehmer self)] else []) @
       (if gaeste self \<noteq> []
        then [lit ''G'' @ [228] @ lit ''ste: '' @ human_join (gaeste self)] else []) @
       bullet_lines (lit ''Ziele:'') (ziele self) @
       bullet_lines (lit ''Tagesordnung:'') (agenda self) @
       bullet_lines (lit ''Hinweise:'') (hinweise self))"

section \<open>The document writer\<close>

text \<open>
  The document of the \<^verbatim>\<open>python-docx\<close> library, as far as \<^verbatim>\<open>build_docx\<close> uses it: a list of
  paragraphs, each with its runs, an optional list style and an optional alignment; a run
  has its text, whether the code set it bold, and the font size in points when the code
  set one. \<^verbatim>\<open>document.add_paragraph(text, style)\<close> appends a paragraph that has one plain
  run when the text is non-empty and no run otherwise; \<^verbatim>\<open>paragraph.add_run(text)\<close> appends
  a run even for an empty text.
\<close>

datatype par_style = ListNumber | ListBullet

datatype par_align = AlignCenter | AlignRight

record run =
  run_text :: pystr
  run_bold :: bool
  run_size :: "nat option"

record para =
  par_runs :: "run list"
  par_style :: "par_style option"
  par_alignment :: "par_align option"

type_synonym document = "para list"

definition add_paragraph :: "pystr \<Rightarrow> par_style option \<Rightarrow> para" where
  "add_paragraph txt style =
     \<lparr>par_runs = (if txt \<noteq> [] then [\<lparr>run_text = txt, run_bold = False, run_size = None\<rparr>]
                  else []),
      par_style = style, par_alignment = None\<rparr>"

definition bold_paragraph :: "pystr \<Rightarrow> nat option \<Rightarrow> para" where
  "bold_paragraph txt sz =
     \<lparr>par_runs = [\<lparr>run_text = txt, run_bold = True, run_size = sz\<rparr>],
      par_style = None, par_alignment = None\<rparr>"


text \<open>
  \<^verbatim>\<open>s.endswith(suffix)\<close>, \<^verbatim>\<open>s.count(c)\<close> and \<^verbatim>\<open>s.lstrip(chars)\<close>, the last two for single
  characters.
\<close>

definition ends_with :: "pystr \<Rightarrow> pystr \<Rightarrow> bool" where
  "ends_with suffix s = starts_with (rev suffix) (rev s)"

definition count_char :: "pychar \<Rightarrow> pystr \<Rightarrow> nat" where
  "count_char c s = length (filter (\<lambda>x. x = c) s)"

definition lstrip_chars :: "pystr \<Rightarrow> pystr \<Rightarrow> pystr" where
  "lstrip_chars chars s = dropWhile (\<lambda>c. c \<in> set chars) s"

text \<open>
  The head of the document:
  \<^verbatim>\<open>
  document = Document()
  title = meta.titel or "Sitzungsprotokoll"
  title_paragraph = document.add_paragraph()
  title_run = title_paragraph.add_run(title)
  title_run.bold = True
  title_run.font.size = Pt(20)
  title_paragraph.alignment = WD_ALIGN_PARAGRAPH.CENTER

  sub_entries = meta.to_docx_header_fields()
  if sub_entries:
      sub_paragraph = document.add_paragraph("  |  ".join(sub_entries))
      sub_paragraph.alignment = WD_ALIGN_PARAGRAPH.CENTER

  document.add_paragraph("")

  def add_section_heading(value: str) -> None:
      heading = document.add_paragraph()
      run = heading.add_run(value)
      run.bold = True
      run.font.size = Pt(12)

  if meta.agenda:
      add_section_heading("Tagesordnung")
      for entry in meta.agenda:
          document.add_paragraph(entry, style="List Number")
      document.add_paragraph("")
  if meta.ziele:
      add_section_heading("Sitzungsziele")
      for goal in meta.ziele:
          document.add_paragraph(goal, style="List Bullet")
      document.add_paragraph("")
  if meta.hinweise:
      add_section_heading("Besondere Hinweise")
      for note in meta.hinweise:
          document.add_paragraph(note, style="List Bullet")
      document.add_paragraph("")
  \<close>
\<close>

definition add_section_heading :: "pystr \<Rightarrow> para" where
  "add_section_heading v = bold_paragraph v (Some 12)"

definition list_section :: "pystr \<Rightarrow> par_style \<Rightarrow> pystr list \<Rightarrow> document" where
  "list_section heading style entries =
     (if entries \<noteq> []
      then add_section_heading heading # map (\<lambda>entry. add_paragraph entry (Some style)) entries @
           [add_paragraph [] None]
      else [])"

definition docx_head :: "MeetingMetadata \<Rightarrow> document" where
  "docx_head meta =
     (let title = (if titel meta \<noteq> [] then titel meta else lit ''Sitzungsprotokoll'');
          title_paragraph = (bold_paragraph title (Some 20))\<lparr>par_alignment := Some AlignCenter\<rparr>;
          sub_entries = to_docx_header_fields meta
      in [title_paragraph] @
         (if sub_entries \<noteq> []
          then [(add_paragraph (join (lit ''  |  '') sub_entries) None)
                  \<lparr>par_alignment := Some AlignCenter\<rparr>]
          else []) @
         [add_paragraph [] None] @
         list_section (lit ''Tagesordnung'') ListNumber (agenda meta) @
         list_section (lit ''Sitzungsziele'') ListBullet (ziele meta) @
         list_section (lit ''Besondere Hinweise'') ListBullet (hinweise meta))"

text \<open>
  The body, one iteration of the loop per line:
  \<^verbatim>\<open>
  for line in text.split("\n"):
      stripped = line.strip()
      if stripped.startswith(("#", "##", "###")):
          level = stripped.count("#")
          paragraph = document.add_paragraph()
          run = paragraph.add_run(stripped.lstrip("#").strip())
          run.bold = True
          run.font.size = Pt(14 if level == 1 else 12)
      elif stripped.endswith(":") and len(stripped) < 120:
          paragraph = document.add_paragraph()
          run = paragraph.add_run(stripped)
          run.bold = True
      else:
          if stripped.startswith(("-", "*", "\<bullet>")):
              document.add_paragraph(stripped.lstrip("-*\<bullet> ").strip(), style="List Bullet")
          else:
              document.add_paragraph(line)
  \<close>
  The bullet character is U+2022.
\<close>

abbreviation hash :: pychar where "hash \<equiv> 35"
abbreviation colon :: pychar where "colon \<equiv> 58"
abbreviation bullet :: pychar where "bullet \<equiv> 8226"

definition body_paragraph :: "pystr \<Rightarrow> para" where
  "body_paragraph line =
     (let stripped = strip line in
      if starts_with [hash] stripped \<or> starts_with [hash, hash] stripped \<or>
         starts_with [hash, hash, hash] stripped
      then (let level = count_char hash stripped
            in bold_paragraph (strip (lstrip_chars [hash] stripped))
                 (Some (if level = 1 then 14 else 12)))
      else if ends_with [colon] stripped \<and> length stripped < 120
      then bold_paragraph stripped None
      else if starts_with (lit ''-'') stripped \<or> starts_with (lit ''*'') stripped \<or>
              starts_with [bullet] stripped
      then add_paragraph (strip (lstrip_chars (lit ''-*'' @ [bullet] @ lit '' '') stripped))
             (Some ListBullet)
      else add_paragraph line None)"

fun body_loop :: "document \<Rightarrow> pystr list \<Rightarrow> document" where
  "body_loop document [] = document"
| "body_loop document (line # rest) = body_loop (document @ [body_paragraph line]) rest"

text \<open>
  \<^verbatim>\<open>
  document.add_paragraph("")
  stamp = document.add_paragraph(f"Erstellt am {datetime.now().strftime('%Y-%m-%d %H:%M')}")
  stamp.alignment = WD_ALIGN_PARAGRAPH.RIGHT
  document.save(out_path)
  \<close>
  The formatted current time is the parameter \<open>now\<close>. \<open>build_docx\<close> gives the document
  that is saved; \<open>save_docx\<close> stores it under its path.
\<close>

definition build_docx :: "pystr \<Rightarrow> MeetingMetadata \<Rightarrow> pystr \<Rightarrow> document" where
  "build_docx txt meta now =
     (let document = docx_head meta;
          document = body_loop document (split_on newline txt);
          document = document @ [add_paragraph [] None];
          stamp = (add_paragraph (lit ''Erstellt am '' @ now) None)
                    \<lparr>par_alignment := Some AlignRight\<rparr>
      in document @ [stamp])"


section \<open>The world of the pipeline\<close>

text \<open>
  The pipeline reads the keyboard, calls two services over the network, writes files and
  works on metadata objects that its caller may still hold. The model passes all of it
  as one explicit state.

  A \<^verbatim>\<open>MeetingMetadata\<close> object lives in the store under an address; its five list fields
  are references to list objects, which live in the store too. Strings are immutable and
  kept by value. \<open>fresh\<close> is the next unused address; addresses are not observable in
  Python (the code never calls \<^verbatim>\<open>id\<close>), only whether two references are the same object.
\<close>

type_synonym addr = nat

record meta_obj =
  o_titel :: pystr
  o_datum :: "pystr option"
  o_ort :: "pystr option"
  o_startzeit :: "pystr option"
  o_endzeit :: "pystr option"
  o_moderation :: "pystr option"
  o_protokoll :: "pystr option"
  o_teilnehmer :: addr
  o_gaeste :: addr
  o_agenda :: addr
  o_ziele :: addr
  o_hinweise :: addr

text \<open>
  A file is a text, raw bytes, or a saved document. A call to a service is recorded with
  what was sent: the file and the language hint for the transcription
  (\<^verbatim>\<open>model="whisper-1", response_format="text"\<close>), the system and the user prompt for a
  chat completion (\<^verbatim>\<open>model="gpt-4o-mini", temperature=0.2\<close>).
\<close>

datatype fs_file = FileText pystr | FileBytes "nat list" | FileDocx document

datatype api_call = Transcription fs_file pystr | ChatCompletion pystr pystr

record world =
  metas :: "addr \<Rightarrow> meta_obj"
  lists :: "addr \<Rightarrow> pystr list"
  fresh :: addr
  stdin :: "pystr list"
  files :: "pystr \<rightharpoonup> fs_file"
  dirs :: "pystr set"
  calls :: "api_call list"

text \<open>
  The exceptions that the modelled code meets: the two of opening the audio file, the end
  of the keyboard input, and whatever a service call raises (network and service errors,
  told apart by a number).
\<close>

datatype error =
  FileNotFoundError pystr | IsADirectoryError pystr | EOFError | ServiceError nat

text \<open>
  What the transcription service answers: a string, or an object with an optional
  \<^verbatim>\<open>text\<close> attribute and its \<^verbatim>\<open>str()\<close>. The services and the clock are parameters: each
  service sees the calls made so far and either raises or answers;
  \<open>clock_today\<close> is \<^verbatim>\<open>datetime.now().strftime("%Y-%m-%d")\<close> and \<open>clock_now\<close> is
  \<^verbatim>\<open>datetime.now().strftime('%Y-%m-%d %H:%M')\<close>.
\<close>

datatype transcription = AsText pystr | AsObject "pystr option" pystr

record environment =
  whisper_api :: "api_call list \<Rightarrow> fs_file \<Rightarrow> pystr \<Rightarrow> nat + transcription"
  chat_api :: "api_call list \<Rightarrow> pystr \<Rightarrow> pystr \<Rightarrow> nat + pystr"
  clock_today :: pystr
  clock_now :: pystr

text \<open>
  A statement of the program takes the world and gives a value or an exception, and the
  world after it. \<open>and_then\<close> runs a second statement on the value of the first and passes
  an exception on.
\<close>

type_synonym 'a prog = "world \<Rightarrow> (error + 'a) \<times> world"

definition succeed :: "'a \<Rightarrow> 'a prog" where
  "succeed x = (\<lambda>w. (Inr x, w))"

definition and_then :: "'a prog \<Rightarrow> ('a \<Rightarrow> 'b prog) \<Rightarrow> 'b prog" where
  "and_then m f = (\<lambda>w. case m w of (Inl e, w') \<Rightarrow> (Inl e, w') | (Inr x, w') \<Rightarrow> f x w')"

subsection \<open>Objects\<close>

definition alloc_list :: "pystr list \<Rightarrow> addr prog" where
  "alloc_list xs = (\<lambda>w. (Inr (fresh w), w\<lparr>lists := (lists w)(fresh w := xs), fresh := Suc (fresh w)\<rparr>))"

definition alloc_meta :: "meta_obj \<Rightarrow> addr prog" where
  "alloc_meta obj = (\<lambda>w. (Inr (fresh w), w\<lparr>metas := (metas w)(fresh w := obj), fresh := Suc (fresh w)\<rparr>))"

definition get_meta :: "addr \<Rightarrow> meta_obj prog" where
  "get_meta a = (\<lambda>w. (Inr (metas w a), w))"

definition set_meta :: "addr \<Rightarrow> (meta_obj \<Rightarrow> meta_obj) \<Rightarrow> unit prog" where
  "set_meta a upd = (\<lambda>w. (Inr (), w\<lparr>metas := (metas w)(a := upd (metas w a))\<rparr>))"

text \<open>The value of a metadata object: its fields, with the lists read through their references.\<close>

definition meta_value :: "world \<Rightarrow> addr \<Rightarrow> MeetingMetadata" where
  "meta_value w a =
     (let obj = metas w a in
      \<lparr>titel = o_titel obj, datum = o_datum obj, ort = o_ort obj,
       startzeit = o_startzeit obj, endzeit = o_endzeit obj,
       moderation = o_moderation obj, protokoll = o_protokoll obj,
       teilnehmer = lists w (o_teilnehmer obj), gaeste = lists w (o_gaeste obj),
       agenda = lists w (o_agenda obj), ziele = lists w (o_ziele obj),
       hinweise = lists w (o_hinweise obj)\<rparr>)"

text \<open>
  \<^verbatim>\<open>copy.deepcopy(metadata)\<close>: a new object whose lists are new list objects with the same
  strings. The memo of \<^verbatim>\<open>deepcopy\<close> maps every list already copied to its copy, so two
  fields that share a list share the copy.
\<close>

definition deepcopy_list :: "(addr \<times> addr) list \<Rightarrow> addr \<Rightarrow> (addr \<times> (addr \<times> addr) list) prog" where
  "deepcopy_list memo a =
     (case map_of memo a of
        Some b \<Rightarrow> succeed (b, memo)
      | None \<Rightarrow> (\<lambda>w. and_then (alloc_list (lists w a)) (\<lambda>b. succeed (b, (a, b) # memo)) w))"

definition deepcopy :: "addr \<Rightarrow> addr prog" where
  "deepcopy a =
     and_then (get_meta a) (\<lambda>obj.
     and_then (deepcopy_list [] (o_teilnehmer obj)) (\<lambda>(tn, memo).
     and_then (deepcopy_list memo (o_gaeste obj)) (\<lambda>(ga, memo).
     and_then (deepcopy_list memo (o_agenda obj)) (\<lambda>(ag, memo).
     and_then (deepcopy_list memo (o_ziele obj)) (\<lambda>(zi, memo).
     and_then (deepcopy_list memo (o_hinweise obj)) (\<lambda>(hi, memo).
     alloc_meta (obj\<lparr>o_teilnehmer := tn, o_gaeste := ga, o_agenda := ag, o_ziele := zi,
                      o_hinweise := hi\<rparr>)))))))"

subsection \<open>The keyboard\<close>

text \<open>
  \<^verbatim>\<open>input(prompt)\<close> takes the next line of the keyboard input and raises \<^verbatim>\<open>EOFError\<close> at
  its end. What the program prints (the prompts, the summary of the form) has no effect
  on the state and is left out.
  \<^verbatim>\<open>
  def prompt_with_default(prompt: str, default: str = "") -> str:
      hint = f" [{default}]" if default else ""
      value = input(f"{prompt}{hint}: ").strip()
      return value or default
  \<close>
\<close>

definition input_line :: "pystr prog" where
  "input_line = (\<lambda>w. case stdin w of [] \<Rightarrow> (Inl EOFError, w)
                     | l # ls \<Rightarrow> (Inr l, w\<lparr>stdin := ls\<rparr>))"

definition prompt_with_default :: "pystr \<Rightarrow> pystr prog" where
  "prompt_with_default dflt =
     and_then input_line (\<lambda>l. let v = strip l in succeed (if v \<noteq> [] then v else dflt))"

text \<open>
  \<^verbatim>\<open>
  def prompt_list(prompt: str, default: List[str]) -> List[str]:
      ...
      entries: List[str] = []
      counter = 1
      while True:
          value = input(f"    {counter}. ").strip()
          if not value:
              break
          entries.append(value)
          counter += 1
      return entries if entries else default
  \<close>
  The loop ends at the first blank line, or with \<^verbatim>\<open>EOFError\<close>; \<open>read_entries\<close> gives the
  entries and the input left. The result is a new list object, or the very list that was
  passed as the default.
\<close>

fun read_entries :: "pystr list \<Rightarrow> (error + pystr list) \<times> pystr list" where
  "read_entries [] = (Inl EOFError, [])"
| "read_entries (l # ls) =
     (let v = strip l in
      if v = [] then (Inr [], ls)
      else (case read_entries ls of
              (Inl e, rest) \<Rightarrow> (Inl e, rest)
            | (Inr entries, rest) \<Rightarrow> (Inr (v # entries), rest)))"

definition prompt_list :: "addr \<Rightarrow> addr prog" where
  "prompt_list dflt =
     (\<lambda>w. case read_entries (stdin w) of
             (Inl e, rest) \<Rightarrow> (Inl e, w\<lparr>stdin := rest\<rparr>)
           | (Inr entries, rest) \<Rightarrow>
               if entries \<noteq> [] then alloc_list entries (w\<lparr>stdin := rest\<rparr>)
               else (Inr dflt, w\<lparr>stdin := rest\<rparr>))"

text \<open>
  \<^verbatim>\<open>confirm.lower()\<close> is compared with five answers in ASCII letters; the only characters
  that \<^verbatim>\<open>str.lower\<close> maps to the letters of these answers are the ASCII capitals, so the
  lowering of the ASCII capitals stands for it.
\<close>

definition ascii_lower :: "pystr \<Rightarrow> pystr" where
  "ascii_lower s = map (\<lambda>c. if 65 \<le> c \<and> c \<le> 90 then c + 32 else c) s"

definition confirmed :: "pystr \<Rightarrow> bool" where
  "confirmed answer \<longleftrightarrow>
     ascii_lower (strip answer) \<in> set [[], lit ''j'', lit ''ja'', lit ''y'', lit ''yes'']"

text \<open>
  \<^verbatim>\<open>
  def collect_meeting_metadata(base_meta: MeetingMetadata) -> MeetingMetadata:
      meta = copy.deepcopy(base_meta)
      while True:
          meta.titel = prompt_with_default("Sitzungstitel", meta.titel or "Sitzungsprotokoll")
          meta.datum = prompt_with_default(
              "Datum (z. B. 2025-10-01)", meta.datum or datetime.now().strftime("%Y-%m-%d")
          )
          meta.startzeit = prompt_with_default("Geplanter Beginn (HH:MM)", meta.startzeit or "")
          meta.endzeit = prompt_with_default("Geplantes Ende (HH:MM)", meta.endzeit or "")
          meta.ort = prompt_with_default("Ort", meta.ort or "")
          meta.moderation = prompt_with_default("Leitung/Moderation", meta.moderation or "")
          meta.protokoll = prompt_with_default("Protokollf\"uhrung", meta.protokoll or "")
          meta.teilnehmer = prompt_list("Teilnehmer*innen", meta.teilnehmer)
          meta.gaeste = prompt_list("G\"aste", meta.gaeste)
          meta.agenda = prompt_list("Tagesordnungspunkte", meta.agenda)
          meta.ziele = prompt_list("Sitzungsziele", meta.ziele)
          meta.hinweise = prompt_list("Besondere Hinweise", meta.hinweise)
          ...
          confirm = input("\nSind die Angaben korrekt? (J/n): ").strip().lower()
          if confirm in ("", "j", "ja", "y", "yes"):
              return meta
  \<close>
  \<open>ask_text\<close> is one assignment of a text field, \<open>ask_list\<close> one of a list field;
  \<open>fill_form\<close> is the twelve assignments of one round and \<open>collect_round\<close> the round with
  its final question.
\<close>

definition or_text :: "pystr option \<Rightarrow> pystr \<Rightarrow> pystr" where
  "or_text v dflt = (if opt_text v \<noteq> [] then opt_text v else dflt)"

definition ask_text ::
  "addr \<Rightarrow> (meta_obj \<Rightarrow> pystr) \<Rightarrow> (pystr \<Rightarrow> meta_obj \<Rightarrow> meta_obj) \<Rightarrow> unit prog" where
  "ask_text meta dflt store_in =
     and_then (get_meta meta) (\<lambda>obj.
     and_then (prompt_with_default (dflt obj)) (\<lambda>v. set_meta meta (store_in v)))"

definition ask_list ::
  "addr \<Rightarrow> (meta_obj \<Rightarrow> addr) \<Rightarrow> (addr \<Rightarrow> meta_obj \<Rightarrow> meta_obj) \<Rightarrow> unit prog" where
  "ask_list meta field store_in =
     and_then (get_meta meta) (\<lambda>obj.
     and_then (prompt_list (field obj)) (\<lambda>r. set_meta meta (store_in r)))"

definition fill_form :: "environment \<Rightarrow> addr \<Rightarrow> unit prog" where
  "fill_form env meta =
     and_then (ask_text meta
        (\<lambda>obj. if o_titel obj \<noteq> [] then o_titel obj else lit ''Sitzungsprotokoll'')
        (\<lambda>v obj. obj\<lparr>o_titel := v\<rparr>)) (\<lambda>_.
     and_then (ask_text meta (\<lambda>obj. or_text (o_datum obj) (clock_today env))
        (\<lambda>v obj. obj\<lparr>o_datum := Some v\<rparr>)) (\<lambda>_.
     and_then (ask_text meta (\<lambda>obj. or_text (o_startzeit obj) [])
        (\<lambda>v obj. obj\<lparr>o_startzeit := Some v\<rparr>)) (\<lambda>_.
     and_then (ask_text meta (\<lambda>obj. or_text (o_endzeit obj) [])
        (\<lambda>v obj. obj\<lparr>o_endzeit := Some v\<rparr>)) (\<lambda>_.
     and_then (ask_text meta (\<lambda>obj. or_text (o_ort obj) [])
        (\<lambda>v obj. obj\<lparr>o_ort := Some v\<rparr>)) (\<lambda>_.
     and_then (ask_text meta (\<lambda>obj. or_text (o_moderation obj) [])
        (\<lambda>v obj. obj\<lparr>o_moderation := Some v\<rparr>)) (\<lambda>_.
     and_then (ask_text meta (\<lambda>obj. or_text (o_protokoll obj) [])
        (\<lambda>v obj. obj\<lparr>o_protokoll := Some v\<rparr>)) (\<lambda>_.
     and_then (ask_list meta o_teilnehmer (\<lambda>r obj. obj\<lparr>o_teilnehmer := r\<rparr>)) (\<lambda>_.
     and_then (ask_list meta o_gaeste (\<lambda>r obj. obj\<lparr>o_gaeste := r\<rparr>)) (\<lambda>_.
     and_then (ask_list meta o_agenda (\<lambda>r obj. obj\<lparr>o_agenda := r\<rparr>)) (\<lambda>_.
     and_then (ask_list meta o_ziele (\<lambda>r obj. obj\<lparr>o_ziele := r\<rparr>)) (\<lambda>_.
     ask_list meta o_hinweise (\<lambda>r obj. obj\<lparr>o_hinweise := r\<rparr>))))))))))))"

definition collect_round :: "environment \<Rightarrow> addr \<Rightarrow> pystr prog" where
  "collect_round env meta = and_then (fill_form env meta) (\<lambda>_. input_line)"

text \<open>
  The \<^verbatim>\<open>while True\<close> loop of the form. Every round reads at least the answer to its final
  question, so the loop ends with the keyboard input at the latest: it is total, and the
  proof of that is the reason it can be defined.
\<close>

function collect_loop :: "environment \<Rightarrow> addr \<Rightarrow> addr prog" where
  "collect_loop env meta w =
     (case collect_round env meta w of
        (Inl e, w') \<Rightarrow> (Inl e, w')
      | (Inr answer, w') \<Rightarrow> if confirmed answer then (Inr meta, w') else collect_loop env meta w')"
  by pat_completeness auto
termination
proof (relation "measure (\<lambda>(env, meta, w). length (stdin w))")
  show "wf (measure (\<lambda>(env, meta, w). length (stdin w)))"
    by simp
next
  fix env :: environment and meta :: addr and w :: world and x w' answer
  assume r: "(x, w') = collect_round env meta w" and x: "x = Inr answer"
    and "\<not> confirmed answer"
  define shrinks :: "unit prog \<Rightarrow> bool" where
    "shrinks m \<longleftrightarrow> (\<forall>v. length (stdin (snd (m v))) \<le> length (stdin v))" for m
  have seq: "shrinks (and_then m (\<lambda>_. k))" if "shrinks m" "shrinks k" for m k
    unfolding shrinks_def
  proof
    fix v
    obtain y v1 where m: "m v = (y, v1)"
      by (cases "m v")
    have a: "length (stdin v1) \<le> length (stdin v)"
      using that(1) m unfolding shrinks_def by (metis snd_conv)
    have b: "length (stdin (snd (k v1))) \<le> length (stdin v1)"
      using that(2) unfolding shrinks_def by blast
    show "length (stdin (snd (and_then m (\<lambda>_. k) v))) \<le> length (stdin v)"
      using a b m by (cases y) (simp_all add: and_then_def)
  qed
  have entries: "length (snd (read_entries ls)) \<le> length ls" for ls
    by (induction ls) (auto simp: Let_def split: prod.splits sum.splits)
  have ask_t: "shrinks (ask_text meta d s)" for d s
    unfolding shrinks_def
    by (auto simp: ask_text_def and_then_def get_meta_def prompt_with_default_def input_line_def
        set_meta_def succeed_def Let_def split: list.splits)
  have ask_l: "shrinks (ask_list meta f s)" for f s
    unfolding shrinks_def
  proof
    fix v
    show "length (stdin (snd (ask_list meta f s v))) \<le> length (stdin v)"
      using entries [of "stdin v"]
      by (cases "read_entries (stdin v)")
        (auto simp: ask_list_def and_then_def get_meta_def prompt_list_def alloc_list_def
          set_meta_def split: sum.splits)
  qed
  have "shrinks (fill_form env meta)"
    unfolding fill_form_def by (intro seq ask_t ask_l)
  then have "length (stdin (snd (fill_form env meta w))) \<le> length (stdin w)"
    unfolding shrinks_def by blast
  moreover have "length (stdin w') < length (stdin (snd (fill_form env meta w)))"
    using r [symmetric] x
    by (cases "fill_form env meta w")
      (auto simp: collect_round_def and_then_def input_line_def split: sum.splits list.splits)
  ultimately show "((env, meta, w'), (env, meta, w)) \<in> measure (\<lambda>(env, meta, w). length (stdin w))"
    by simp
qed

definition collect_meeting_metadata :: "environment \<Rightarrow> addr \<Rightarrow> addr prog" where
  "collect_meeting_metadata env base_meta = and_then (deepcopy base_meta) (collect_loop env)"

declare collect_loop.simps [simp del]

section \<open>The pipeline\<close>

subsection \<open>Files\<close>

text \<open>
  \<^verbatim>\<open>Path.exists()\<close> holds of files and of directories; \<^verbatim>\<open>write_text\<close> and \<^verbatim>\<open>mkdir\<close> change
  the file system. Paths are compared as texts, and that a write can fail (a missing
  parent directory, a full disk) is outside the model.
\<close>

definition path_exists :: "pystr \<Rightarrow> world \<Rightarrow> bool" where
  "path_exists p w \<longleftrightarrow> files w p \<noteq> None \<or> p \<in> dirs w"

definition write_text :: "pystr \<Rightarrow> pystr \<Rightarrow> unit prog" where
  "write_text p content = (\<lambda>w. (Inr (), w\<lparr>files := (files w)(p \<mapsto> FileText content)\<rparr>))"

definition mkdir :: "pystr \<Rightarrow> unit prog" where
  "mkdir p = (\<lambda>w. (Inr (), w\<lparr>dirs := insert p (dirs w)\<rparr>))"

definition path_join :: "pystr \<Rightarrow> pystr \<Rightarrow> pystr" where
  "path_join dir file_name = dir @ lit ''/'' @ file_name"

subsection \<open>The transcription adapter\<close>

text \<open>
  \<^verbatim>\<open>
  def transcribe_audio(client: OpenAI, audio_path: str, language_hint: str = "de") -> str:
      file_path = Path(audio_path)
      if not file_path.exists():
          raise FileNotFoundError(f"Audiodatei nicht gefunden: {audio_path}")
      with file_path.open("rb") as handle:
          transcription = client.audio.transcriptions.create(
              model="whisper-1",
              file=handle,
              language=language_hint,
              response_format="text",
          )
      if isinstance(transcription, str):
          return transcription
      return getattr(transcription, "text", str(transcription))
  \<close>
  Opening a directory raises \<^verbatim>\<open>IsADirectoryError\<close>; an exception of the service passes
  through, since nothing catches it.
\<close>

fun transcription_text :: "transcription \<Rightarrow> pystr" where
  "transcription_text (AsText s) = s"
| "transcription_text (AsObject (Some s) r) = s"
| "transcription_text (AsObject None r) = r"

definition transcribe_audio :: "environment \<Rightarrow> pystr \<Rightarrow> pystr \<Rightarrow> pystr prog" where
  "transcribe_audio env audio_path language_hint =
     (\<lambda>w. if \<not> path_exists audio_path w then (Inl (FileNotFoundError audio_path), w)
          else (case files w audio_path of
                  None \<Rightarrow> (Inl (IsADirectoryError audio_path), w)
                | Some handle \<Rightarrow>
                    (let w' = w\<lparr>calls := calls w @ [Transcription handle language_hint]\<rparr>
                     in case whisper_api env (calls w) handle language_hint of
                          Inl n \<Rightarrow> (Inl (ServiceError n), w')
                        | Inr t \<Rightarrow> (Inr (transcription_text t), w'))))"

subsection \<open>The summarization adapter\<close>

text \<open>
  One chat completion: the call is recorded, and the service raises or answers with the
  text of \<^verbatim>\<open>response.choices[0].message.content\<close>.
  \<^verbatim>\<open>
  def summarize_chunk(client: OpenAI, text: str) -> str:
      system_prompt = (...)
      user_prompt = f"Textauszug:\n\n{text}"
      response = client.chat.completions.create(...)
      return response.choices[0].message.content.strip()

  def consolidate_summaries(client: OpenAI, summaries: List[str], meta: MeetingMetadata) -> str:
      system_prompt = (...)
      user_prompt = f"{meta.to_prompt_header()}\n\nTeilzusammenfassungen:\n\n{'\n\n'.join(summaries)}"
      response = client.chat.completions.create(...)
      return response.choices[0].message.content.strip()
  \<close>
\<close>

definition chat_completion :: "environment \<Rightarrow> pystr \<Rightarrow> pystr \<Rightarrow> pystr prog" where
  "chat_completion env system_prompt user_prompt =
     (\<lambda>w. let w' = w\<lparr>calls := calls w @ [ChatCompletion system_prompt user_prompt]\<rparr>
          in case chat_api env (calls w) system_prompt user_prompt of
               Inl n \<Rightarrow> (Inl (ServiceError n), w')
             | Inr content \<Rightarrow> (Inr content, w'))"

definition summarize_system_prompt :: pystr where
  "summarize_system_prompt =
     lit ''Du bist ein Assistent, der deutsche Sitzungsprotokolle erstellt. '' @
     lit ''Fasse den folgenden Text klar, pr'' @ [228] @
     lit ''zise und sachlich zusammen. '' @
     lit ''Nenne relevante Themen, Argumente, Entscheidungen und Aufgaben mit Zust'' @
     [228] @ lit ''ndigkeiten, wenn erkennbar.''"

definition consolidate_system_prompt :: pystr where
  "consolidate_system_prompt =
     lit ''Erstelle ein vollst'' @ [228] @
     lit ''ndiges, gut strukturiertes deutsches Sitzungsprotokoll aus den Teilzusammenfassungen. '' @
     lit ''Gliedere in: 1) Teilnehmer 2) Agenda/Themenbl'' @ [246] @
     lit ''cke 3) Diskussion (kurz) 4) Beschl'' @ [252] @ lit ''sse 5) Aufgaben & Zust'' @
     [228] @ lit ''ndigkeiten 6) N'' @ [228] @ lit ''chste Schritte. '' @
     lit ''Arbeite stichpunktorientiert, aber vollst'' @ [228] @
     lit ''ndig; vermeide irrelevante Details. '' @
     lit ''Nutze neutrale, pr'' @ [228] @
     lit ''zise Sprache und konsistente Formatierung.''"

definition summarize_chunk :: "environment \<Rightarrow> pystr \<Rightarrow> pystr prog" where
  "summarize_chunk env txt =
     and_then (chat_completion env summarize_system_prompt (lit ''Textauszug:\<newline>\<newline>'' @ txt))
       (\<lambda>content. succeed (strip content))"

definition consolidate_user_prompt :: "MeetingMetadata \<Rightarrow> pystr list \<Rightarrow> pystr" where
  "consolidate_user_prompt meta summaries =
     to_prompt_header meta @ lit ''\<newline>\<newline>Teilzusammenfassungen:\<newline>\<newline>'' @
     join (lit ''\<newline>\<newline>'') summaries"

definition consolidate_summaries :: "environment \<Rightarrow> pystr list \<Rightarrow> addr \<Rightarrow> pystr prog" where
  "consolidate_summaries env summaries meta =
     (\<lambda>w. and_then
            (chat_completion env consolidate_system_prompt
               (consolidate_user_prompt (meta_value w meta) summaries))
            (\<lambda>content. succeed (strip content)) w)"

subsection \<open>The generator\<close>

text \<open>
  \<^verbatim>\<open>f"teil_{index:02d}.md"\<close>: the index in decimal, with a leading zero below ten.
\<close>

fun decimal :: "nat \<Rightarrow> pystr" where
  "decimal n = (if n < 10 then [48 + n] else decimal (n div 10) @ [48 + n mod 10])"

definition format_02d :: "nat \<Rightarrow> pystr" where
  "format_02d n = (if n < 10 then lit ''0'' @ decimal n else decimal n)"

text \<open>
  \<^verbatim>\<open>
  for index, chunk in enumerate(chunks, start=1):
      summary = summarize_chunk(self.client, chunk)
      partial_summaries.append(summary)
      if partial_dir:
          (partial_dir / f"teil_{index:02d}.md").write_text(summary, encoding="utf-8")
  \<close>
\<close>

fun summarize_loop ::
  "environment \<Rightarrow> pystr option \<Rightarrow> nat \<Rightarrow> pystr list \<Rightarrow> pystr list \<Rightarrow> pystr list prog" where
  "summarize_loop env partial_dir index [] partial_summaries w = (Inr partial_summaries, w)"
| "summarize_loop env partial_dir index (chunk # rest) partial_summaries w =
     (case summarize_chunk env chunk w of
        (Inl e, w1) \<Rightarrow> (Inl e, w1)
      | (Inr summary, w1) \<Rightarrow>
          (case (case partial_dir of
                   None \<Rightarrow> succeed ()
                 | Some d \<Rightarrow>
                     write_text (path_join d (lit ''teil_'' @ format_02d index @ lit ''.md''))
                       summary) w1 of
             (Inl e, w2) \<Rightarrow> (Inl e, w2)
           | (Inr u, w2) \<Rightarrow>
               summarize_loop env partial_dir (Suc index) rest (partial_summaries @ [summary]) w2))"

text \<open>
  \<^verbatim>\<open>
  partial_summaries: List[str] = []
  if chunks:
      partial_dir = Path(save_partials) if save_partials else None
      if partial_dir and not partial_dir.exists():
          partial_dir.mkdir(parents=True, exist_ok=True)
      for index, chunk in enumerate(chunks, start=1):
          ...
  \<close>
\<close>

definition summarize_all :: "environment \<Rightarrow> pystr option \<Rightarrow> pystr list \<Rightarrow> pystr list prog" where
  "summarize_all env save_partials chunks =
     (if chunks \<noteq> []
      then (let partial_dir =
                  (if opt_text save_partials \<noteq> [] then Some (opt_text save_partials) else None)
            in and_then
                 (case partial_dir of
                    None \<Rightarrow> succeed ()
                  | Some d \<Rightarrow> (\<lambda>w. if \<not> path_exists d w then mkdir d w else (Inr (), w)))
                 (\<lambda>_. summarize_loop env partial_dir 1 chunks []))
      else succeed [])"

text \<open>
  \<^verbatim>\<open>build_docx(final_minutes, output_path, meta)\<close> with its last statement
  \<^verbatim>\<open>document.save(out_path)\<close>: the document built from the value of the metadata object is
  stored under the output path.
\<close>

definition write_docx :: "environment \<Rightarrow> pystr \<Rightarrow> pystr \<Rightarrow> addr \<Rightarrow> unit prog" where
  "write_docx env txt out_path meta =
     (\<lambda>w. (Inr (), w\<lparr>files := (files w)(out_path \<mapsto>
               FileDocx (build_docx txt (meta_value w meta) (clock_now env)))\<rparr>))"

text \<open>
  \<^verbatim>\<open>
  def generate(self, audio_path, output_path, metadata, language_hint="de",
               save_transcript=None, save_partials=None, prompt_for_metadata=False) -> str:
      meta = copy.deepcopy(metadata)
      if prompt_for_metadata:
          meta = collect_meeting_metadata(meta)

      transcript = transcribe_audio(self.client, audio_path, language_hint=language_hint).strip()

      if save_transcript:
          Path(save_transcript).write_text(transcript, encoding="utf-8")

      chunks = chunk_text(transcript, target_chars=7000)

      partial_summaries: List[str] = []
      if chunks:
          ...
      if partial_summaries:
          final_minutes = consolidate_summaries(self.client, partial_summaries, meta)
      else:
          final_minutes = consolidate_summaries(self.client, [transcript], meta)

      build_docx(final_minutes, output_path, meta)
      return output_path
  \<close>
  The method is written in three parts: \<open>prepare_metadata\<close> is its first three lines,
  \<open>minutes_from_transcript\<close> is everything after the transcript is known, and \<open>generate\<close>
  puts the call of the transcription adapter between them.
\<close>

definition prepare_metadata :: "environment \<Rightarrow> addr \<Rightarrow> bool \<Rightarrow> addr prog" where
  "prepare_metadata env metadata prompt_for_metadata =
     and_then (deepcopy metadata) (\<lambda>meta.
       if prompt_for_metadata then collect_meeting_metadata env meta else succeed meta)"

definition minutes_from_transcript ::
  "environment \<Rightarrow> pystr \<Rightarrow> addr \<Rightarrow> pystr option \<Rightarrow> pystr option \<Rightarrow> pystr \<Rightarrow> pystr prog" where
  "minutes_from_transcript env output_path meta save_transcript save_partials transcript =
     and_then (if opt_text save_transcript \<noteq> []
               then write_text (opt_text save_transcript) transcript else succeed ()) (\<lambda>_.
     let chunks = chunk_text transcript 7000 in
     and_then (summarize_all env save_partials chunks) (\<lambda>partial_summaries.
     and_then (if partial_summaries \<noteq> []
               then consolidate_summaries env partial_summaries meta
               else consolidate_summaries env [transcript] meta) (\<lambda>final_minutes.
     and_then (write_docx env final_minutes output_path meta) (\<lambda>_.
     succeed output_path))))"

definition generate ::
  "environment \<Rightarrow> pystr \<Rightarrow> pystr \<Rightarrow> addr \<Rightarrow> pystr \<Rightarrow> pystr option \<Rightarrow> pystr option \<Rightarrow> bool \<Rightarrow>
   pystr prog" where
  "generate env audio_path output_path metadata language_hint save_transcript save_partials
     prompt_for_metadata =
     and_then (prepare_metadata env metadata prompt_for_metadata) (\<lambda>meta.
     and_then (transcribe_audio env audio_path language_hint) (\<lambda>raw.
     minutes_from_transcript env output_path meta save_transcript save_partials (strip raw)))"

subsection \<open>A world for concrete evaluation\<close>

text \<open>
  One metadata object at address 0 with its five lists at the addresses 1 to 5, an audio
  file, a directory, and three lines of keyboard input. The first environment answers
  every transcription with blank text, the second one raises on it.
\<close>

definition example_object :: meta_obj where
  "example_object =
     \<lparr>o_titel = lit ''Sitzungsprotokoll'', o_datum = Some (lit ''2025-10-01''), o_ort = None,
      o_startzeit = None, o_endzeit = None, o_moderation = None, o_protokoll = None,
      o_teilnehmer = 1, o_gaeste = 2, o_agenda = 3, o_ziele = 4, o_hinweise = 5\<rparr>"

definition example_world :: world where
  "example_world =
     \<lparr>metas = (\<lambda>a. example_object),
      lists = (\<lambda>a. if a = 1 then [lit ''A'', lit ''B''] else []),
      fresh = 6,
      stdin = [lit ''Vorstand'', [], lit ''n''],
      files = [lit ''sitzung.mp3'' \<mapsto> FileBytes [82, 73, 70, 70]],
      dirs = {lit ''aufnahmen''},
      calls = []\<rparr>"

definition example_env :: environment where
  "example_env =
     \<lparr>whisper_api = (\<lambda>history handle language. Inr (AsText (lit '' \<newline>''))),
      chat_api = (\<lambda>history system_prompt user_prompt. Inr (lit '' Protokoll '')),
      clock_today = lit ''2025-10-01'', clock_now = lit ''2025-10-01 12:00''\<rparr>"

definition failing_env :: environment where
  "failing_env =
     \<lparr>whisper_api = (\<lambda>history handle language. Inl 503),
      chat_api = (\<lambda>history system_prompt user_prompt. Inl 503),
      clock_today = lit ''2025-10-01'', clock_now = lit ''2025-10-01 12:00''\<rparr>"

subsection \<open>What a statement leaves alone\<close>

text \<open>
  For the claim about the caller's metadata: \<open>keeps n w w'\<close> says that every object below
  the address \<open>n\<close> is in \<open>w'\<close> what it was in \<open>w\<close>, and that \<open>w'\<close> allocates at \<open>n\<close> or above.
  A statement \<open>frames n P\<close> when, started where the addresses from \<open>n\<close> on are unused or
  its own, it keeps the objects below \<open>n\<close>, whatever its outcome, and every value it
  returns has the property \<open>P\<close>.
\<close>

definition keeps :: "addr \<Rightarrow> world \<Rightarrow> world \<Rightarrow> bool" where
  "keeps n w w' \<longleftrightarrow>
     (\<forall>a<n. metas w' a = metas w a \<and> lists w' a = lists w a) \<and> n \<le> fresh w'"

definition frames :: "addr \<Rightarrow> ('a \<Rightarrow> bool) \<Rightarrow> 'a prog \<Rightarrow> bool" where
  "frames n P m \<longleftrightarrow>
     (\<forall>w. n \<le> fresh w \<longrightarrow>
        keeps n w (snd (m w)) \<and> (\<forall>x. fst (m w) = Inr x \<longrightarrow> P x))"

section \<open>Facts about strings\<close>

lemma split_on_not_Nil: "split_on sep s \<noteq> []"
  by (induction s) (auto simp: Let_def)

lemma split_on_no_sep: "sep \<notin> set s \<Longrightarrow> split_on sep s = [s]"
  by (induction s) (auto simp: Let_def)

lemma strip_Nil: "strip [] = []"
  by (simp add: strip_def)

lemma strip_all_space: "\<forall>c\<in>set s. isspace c \<Longrightarrow> strip s = []"
proof -
  assume "\<forall>c\<in>set s. isspace c"
  then have d: "dropWhile isspace s = []"
    by simp
  show ?thesis
    unfolding strip_def d by simp
qed

lemma strip_ends:
  "strip s = [] \<or> (\<not> isspace (hd (strip s)) \<and> \<not> isspace (last (strip s)))"
proof (cases "dropWhile isspace s = []")
  case True
  have "strip s = []"
    unfolding strip_def True by simp
  then show ?thesis ..
next
  case False
  define t where "t = dropWhile isspace s"
  define v where "v = dropWhile isspace (rev t)"
  have t: "t \<noteq> []" "\<not> isspace (hd t)"
    using False hd_dropWhile [of isspace s] by (simp_all add: t_def)
  have "\<not> isspace (last (rev t))"
    using t by (simp add: last_rev)
  then have "\<exists>x\<in>set (rev t). \<not> isspace x"
    using t by (metis last_in_set rev_is_Nil_conv)
  then have v: "v \<noteq> []"
    by (simp add: v_def)
  then have hv: "\<not> isspace (hd v)"
    using hd_dropWhile [of isspace "rev t"] by (simp add: v_def)
  obtain us where "rev t = us @ v"
    by (metis takeWhile_dropWhile_id v_def)
  then have "last v = last (rev t)"
    using v by simp
  then have lv: "\<not> isspace (last v)"
    using t by (simp add: last_rev)
  have "strip s = rev v"
    by (simp add: strip_def v_def t_def)
  then show ?thesis
    using v hv lv by (simp add: hd_rev last_rev)
qed

lemma strip_fixed:
  assumes "s = [] \<or> (\<not> isspace (hd s) \<and> \<not> isspace (last s))"
  shows "strip s = s"
proof (cases "s = []")
  case True
  then show ?thesis by (simp add: strip_def)
next
  case False
  then have h: "\<not> isspace (hd s)" and l: "\<not> isspace (last s)"
    using assms by auto
  have "dropWhile isspace s = s"
    using False h by (cases s) auto
  moreover have "dropWhile isspace (rev s) = rev s"
    using False l by (cases "rev s") (auto simp: last_rev [symmetric] hd_rev)
  ultimately show ?thesis
    by (simp add: strip_def)
qed

lemma strip_idem: "strip (strip s) = strip s"
  by (rule strip_fixed) (rule strip_ends)

lemma split_on_append_sep:
  "split_on sep (a @ sep # b) = split_on sep a @ split_on sep b"
  by (induction a) (auto simp: Let_def split_on_not_Nil)

lemma set_strip: "set (strip s) \<subseteq> set s"
  unfolding strip_def
  by (metis set_dropWhileD set_rev subsetI)

lemma split_on_pieces: "\<forall>p\<in>set (split_on sep s). sep \<notin> set p"
proof (induction s)
  case Nil
  show ?case by simp
next
  case (Cons c cs)
  obtain r rs where r: "split_on sep cs = r # rs"
    using split_on_not_Nil [of sep cs] by (cases "split_on sep cs") auto
  show ?case
    using Cons by (auto simp: r Let_def)
qed

section \<open>Properties of the semicolon-list parser\<close>

text \<open>
  C4. \<open>parse_semicolon_list\<close> turns \<^verbatim>\<open>"A;B ;;C"\<close> into \<^verbatim>\<open>["A","B","C"]\<close>; the empty
  string and every string of whitespace only give the empty list; and every element of
  every result is a non-empty string equal to its own trimming.
\<close>

theorem parse_semicolon_list_spec:
  "parse_semicolon_list (lit ''A;B ;;C'') = [lit ''A'', lit ''B'', lit ''C''] \<and>
   parse_semicolon_list [] = [] \<and>
   ((\<forall>c\<in>set s. isspace c) \<longrightarrow> parse_semicolon_list s = []) \<and>
   (\<forall>x\<in>set (parse_semicolon_list t). x \<noteq> [] \<and> strip x = x)"
proof (intro conjI impI ballI)
  show "parse_semicolon_list (lit ''A;B ;;C'') = [lit ''A'', lit ''B'', lit ''C'']"
    by (simp add: parse_semicolon_list_def lit_def strip_def isspace_def)
  show "parse_semicolon_list [] = []"
    by (simp add: parse_semicolon_list_def)
next
  assume ws: "\<forall>c\<in>set s. isspace c"
  have "\<not> isspace semicolon"
    by (simp add: isspace_def)
  then have "semicolon \<notin> set s"
    using ws by blast
  then have "split_on semicolon s = [s]"
    by (rule split_on_no_sep)
  then show "parse_semicolon_list s = []"
    using ws by (simp add: parse_semicolon_list_def strip_all_space)
next
  fix x
  assume "x \<in> set (parse_semicolon_list t)"
  then obtain item where "x = strip item" "strip item \<noteq> []"
    by (auto simp: parse_semicolon_list_def split: if_splits)
  then show "x \<noteq> []" and "strip x = x"
    by (simp_all add: strip_idem)
qed

theorem parse_semicolon_list_spec_witness:
  "list_all isspace (lit '' '') \<and> parse_semicolon_list (lit '' '') = [] \<and>
   lit ''a'' \<in> set (parse_semicolon_list (lit '' a ;b'')) \<and> strip (lit ''a'') = lit ''a''"
proof -
  have ws: "\<forall>c\<in>set (lit '' ''). isspace c"
    by (simp add: lit_def isspace_def)
  have mem: "lit ''a'' \<in> set (parse_semicolon_list (lit '' a ;b''))"
    by (simp add: parse_semicolon_list_def lit_def strip_def isspace_def)
  show ?thesis
    using parse_semicolon_list_spec [of "lit '' ''" "lit '' a ;b''"] ws mem
    by (simp add: list_all_iff)
qed

section \<open>Properties of the chunker\<close>

lemma trimmed_strip: "trimmed s \<Longrightarrow> strip s = s"
  by (rule strip_fixed) (simp add: trimmed_def)

lemma trimmed_glue:
  assumes "trimmed b" "trimmed p"
  shows "trimmed (b @ [newline] @ p)"
  using assms by (cases b) (auto simp: trimmed_def)

lemma paragraphs_trimmed: "\<forall>p\<in>set (paragraphs text). trimmed p \<and> newline \<notin> set p"
proof
  fix p
  assume "p \<in> set (paragraphs text)"
  then obtain q where q: "q \<in> set (split_on newline text)" "p = strip q" "strip q \<noteq> []"
    by (auto simp: paragraphs_def)
  have "newline \<notin> set q"
    using q(1) split_on_pieces by blast
  then have "newline \<notin> set p"
    using set_strip [of q] q(2) by blast
  moreover have "trimmed p"
    using strip_ends [of q] q(2,3) by (simp add: trimmed_def)
  ultimately show "trimmed p \<and> newline \<notin> set p"
    by simp
qed

lemma chunk_loop_lines:
  assumes "\<forall>p\<in>set ps. trimmed p \<and> newline \<notin> set p"
    and "b = [] \<or> trimmed b"
    and "chunk_loop n ps cs b = (cs', b')"
  shows "lines_of (flush cs' b') = lines_of (flush cs b) @ ps"
  using assms
proof (induction ps arbitrary: cs b)
  case Nil
  then show ?case by simp
next
  case (Cons p ps)
  have p: "trimmed p" "newline \<notin> set p" and ps: "\<forall>p\<in>set ps. trimmed p \<and> newline \<notin> set p"
    using Cons.prems(1) by simp_all
  have pne: "p \<noteq> []"
    using p(1) by (simp add: trimmed_def)
  have sp: "split_on newline p = [p]"
    using p(2) by (rule split_on_no_sep)
  show ?case
  proof (cases "b = []")
    case True
    have "chunk_loop n ps cs p = (cs', b')"
      using Cons.prems(3) True by (simp add: Let_def split: if_splits)
    then have "lines_of (flush cs' b') = lines_of (flush cs p) @ ps"
      using Cons.IH [of p cs] ps p(1) by simp
    then show ?thesis
      using True pne sp by (simp add: flush_def lines_of_def)
  next
    case False
    then have tb: "trimmed b"
      using Cons.prems(2) by simp
    define cand where "cand = b @ [newline] @ p"
    have tc: "trimmed cand"
      unfolding cand_def using tb p(1) by (rule trimmed_glue)
    have sc: "strip (b @ [newline] @ p) = cand"
      using tc trimmed_strip by (simp add: cand_def)
    have cne: "cand \<noteq> []"
      by (simp add: cand_def)
    have lc: "split_on newline cand = split_on newline b @ [p]"
      by (simp add: cand_def split_on_append_sep sp)
    show ?thesis
    proof (cases "int (length cand) \<le> n")
      case True
      then have "chunk_loop n ps cs cand = (cs', b')"
        using Cons.prems(3) False sc by (simp add: Let_def)
      then have "lines_of (flush cs' b') = lines_of (flush cs cand) @ ps"
        using Cons.IH [of cand cs] ps tc by simp
      then show ?thesis
        using False cne lc by (simp add: flush_def lines_of_def)
    next
      case over: False
      then have "chunk_loop n ps (cs @ [b]) p = (cs', b')"
        using Cons.prems(3) False sc by (simp add: Let_def)
      then have "lines_of (flush cs' b') = lines_of (flush (cs @ [b]) p) @ ps"
        using Cons.IH [of p "cs @ [b]"] ps p(1) by simp
      then show ?thesis
        using False pne sp by (simp add: flush_def lines_of_def)
    qed
  qed
qed

text \<open>
  C2. Splitting every chunk returned by \<open>chunk_text\<close> at its newlines and concatenating
  the pieces gives exactly the stripped non-blank lines of the text, in order; the empty
  text gives no chunk.
\<close>

theorem chunk_text_paragraph_stream:
  "concat (map (split_on newline) (chunk_text text target_chars)) = paragraphs text \<and>
   chunk_text [] target_chars = []"
proof
  show "chunk_text [] target_chars = []"
    by (simp add: chunk_text_def)
  show "concat (map (split_on newline) (chunk_text text target_chars)) = paragraphs text"
  proof (cases "text = []")
    case True
    then show ?thesis
      by (simp add: chunk_text_def paragraphs_def strip_Nil)
  next
    case False
    obtain cs b where l: "chunk_loop target_chars (paragraphs text) [] [] = (cs, b)"
      by (cases "chunk_loop target_chars (paragraphs text) [] []")
    have "lines_of (flush cs b) = lines_of (flush [] []) @ paragraphs text"
      using paragraphs_trimmed l by (rule chunk_loop_lines [where b = "[]", simplified])
    then show ?thesis
      using False l by (simp add: chunk_text_def flush_def lines_of_def)
  qed
qed

lemma chunk_loop_budget:
  assumes "\<forall>c\<in>set cs. int (length c) \<le> n \<or> (c \<in> P \<and> n < int (length c))"
    and "b = [] \<or> int (length b) \<le> n \<or> (b \<in> P \<and> n < int (length b))"
    and "set ps \<subseteq> P"
    and "chunk_loop n ps cs b = (cs', b')"
  shows "\<forall>c\<in>set (flush cs' b'). int (length c) \<le> n \<or> (c \<in> P \<and> n < int (length c))"
  using assms
proof (induction ps arbitrary: cs b)
  case Nil
  then show ?case by (auto simp: flush_def)
next
  case (Cons p ps)
  define cand where "cand = (if b \<noteq> [] then strip (b @ [newline] @ p) else p)"
  show ?case
  proof (cases "int (length cand) \<le> n")
    case True
    then have l: "chunk_loop n ps cs cand = (cs', b')"
      using Cons.prems(4) by (simp add: cand_def Let_def)
    have pb: "cand = [] \<or> int (length cand) \<le> n \<or> (cand \<in> P \<and> n < int (length cand))"
      using True by simp
    have "set ps \<subseteq> P"
      using Cons.prems(3) by simp
    then show ?thesis
      by (rule Cons.IH [OF Cons.prems(1) pb _ l])
  next
    case False
    then have l: "chunk_loop n ps (if b \<noteq> [] then cs @ [b] else cs) p = (cs', b')"
      using Cons.prems(4) by (simp add: cand_def Let_def)
    have pb: "p = [] \<or> int (length p) \<le> n \<or> (p \<in> P \<and> n < int (length p))"
      using Cons.prems(3) by auto
    have cb: "\<forall>c\<in>set (if b \<noteq> [] then cs @ [b] else cs).
        int (length c) \<le> n \<or> (c \<in> P \<and> n < int (length c))"
      using Cons.prems(1,2) by auto
    have "set ps \<subseteq> P"
      using Cons.prems(3) by simp
    then show ?thesis
      by (rule Cons.IH [OF cb pb _ l])
  qed
qed

text \<open>
  C1, as amended. A paragraph is never split, so a paragraph longer than the budget is a
  chunk of its own: every chunk either has at most \<open>target_chars\<close> characters or is one
  paragraph of the text that is itself longer than \<open>target_chars\<close>. When every paragraph
  fits the budget, every chunk does.
\<close>

theorem chunk_text_budget:
  "(\<forall>c\<in>set (chunk_text text target_chars).
      int (length c) \<le> target_chars \<or>
      (c \<in> set (paragraphs text) \<and> target_chars < int (length c))) \<and>
   ((\<forall>p\<in>set (paragraphs text). int (length p) \<le> target_chars) \<longrightarrow>
    (\<forall>c\<in>set (chunk_text text target_chars). int (length c) \<le> target_chars))"
proof -
  have a: "\<forall>c\<in>set (chunk_text text target_chars).
      int (length c) \<le> target_chars \<or>
      (c \<in> set (paragraphs text) \<and> target_chars < int (length c))"
  proof (cases "text = []")
    case True
    then show ?thesis by (simp add: chunk_text_def)
  next
    case False
    obtain cs b where l: "chunk_loop target_chars (paragraphs text) [] [] = (cs, b)"
      by (cases "chunk_loop target_chars (paragraphs text) [] []")
    have "\<forall>c\<in>set (flush cs b). int (length c) \<le> target_chars \<or>
        (c \<in> set (paragraphs text) \<and> target_chars < int (length c))"
      by (rule chunk_loop_budget [OF _ _ _ l]) simp_all
    then show ?thesis
      using False l by (simp add: chunk_text_def flush_def)
  qed
  then show ?thesis
    by fastforce
qed

theorem chunk_text_budget_witness:
  "list_all (\<lambda>p. int (length p) \<le> 5) (paragraphs (lit ''ab\<newline>cd\<newline>\<newline> ef  \<newline>ghijk'')) \<and>
   list_all (\<lambda>c. int (length c) \<le> 5) (chunk_text (lit ''ab\<newline>cd\<newline>\<newline> ef  \<newline>ghijk'') 5) \<and>
   chunk_text (lit ''ab\<newline>cd\<newline>\<newline> ef  \<newline>ghijk'') 5 = [lit ''ab\<newline>cd'', lit ''ef'', lit ''ghijk'']"
proof -
  have p: "paragraphs (lit ''ab\<newline>cd\<newline>\<newline> ef  \<newline>ghijk'') =
      [lit ''ab'', lit ''cd'', lit ''ef'', lit ''ghijk'']"
    by (simp add: paragraphs_def lit_def strip_def isspace_def)
  have c: "chunk_text (lit ''ab\<newline>cd\<newline>\<newline> ef  \<newline>ghijk'') 5 =
      [lit ''ab\<newline>cd'', lit ''ef'', lit ''ghijk'']"
    unfolding chunk_text_def p by (simp add: lit_def strip_def isspace_def)
  have h: "\<forall>p\<in>set (paragraphs (lit ''ab\<newline>cd\<newline>\<newline> ef  \<newline>ghijk'')). int (length p) \<le> 5"
    unfolding p by (simp add: lit_def)
  show ?thesis
    using chunk_text_budget [of "lit ''ab\<newline>cd\<newline>\<newline> ef  \<newline>ghijk''" 5] h c
    by (simp add: list_all_iff)
qed

text \<open>
  The claim as the specification states it fails: with a budget of two characters the
  text \<^verbatim>\<open>"abc"\<close> is returned as one chunk of three characters.
\<close>

theorem chunk_text_budget_counterexample:
  "chunk_text (lit ''abc'') 2 = [lit ''abc''] \<and> (2::int) < int (length (lit ''abc''))"
  by (simp add: chunk_text_def paragraphs_def lit_def strip_def isspace_def)

section \<open>Properties of the metadata dictionary\<close>

lemma keys_distinct:
  "distinct [lit ''titel'', lit ''datum'', lit ''ort'', lit ''startzeit'', lit ''endzeit'',
     lit ''moderation'', lit ''protokoll'', lit ''teilnehmer'', lit ''gaeste'', lit ''agenda'',
     lit ''ziele'', lit ''hinweise'']"
  by (simp add: lit_def)

lemma optional_or_none: "as_optional_str (py_or (of_optional x) PNone) = Some (or_none x)"
  by (cases x) (simp_all add: py_or_def)

lemma list_or_empty: "py_list (py_or (PList xs) (PList [])) = Some xs"
  by (simp add: py_or_def)

lemma to_dict_lookup:
  "to_dict m (lit ''titel'') = Some (PStr (titel m))"
  "to_dict m (lit ''datum'') = Some (of_optional (datum m))"
  "to_dict m (lit ''ort'') = Some (of_optional (ort m))"
  "to_dict m (lit ''startzeit'') = Some (of_optional (startzeit m))"
  "to_dict m (lit ''endzeit'') = Some (of_optional (endzeit m))"
  "to_dict m (lit ''moderation'') = Some (of_optional (moderation m))"
  "to_dict m (lit ''protokoll'') = Some (of_optional (protokoll m))"
  "to_dict m (lit ''teilnehmer'') = Some (PList (teilnehmer m))"
  "to_dict m (lit ''gaeste'') = Some (PList (gaeste m))"
  "to_dict m (lit ''agenda'') = Some (PList (agenda m))"
  "to_dict m (lit ''ziele'') = Some (PList (ziele m))"
  "to_dict m (lit ''hinweise'') = Some (PList (hinweise m))"
  using keys_distinct by (simp_all add: to_dict_def)

lemma from_dict_to_dict:
  "from_dict (to_dict m) =
     Some (m\<lparr>datum := or_none (datum m), ort := or_none (ort m),
              startzeit := or_none (startzeit m), endzeit := or_none (endzeit m),
              moderation := or_none (moderation m), protokoll := or_none (protokoll m)\<rparr>)"
  by (simp add: from_dict_def optional_field_def list_field_def dict_get_def to_dict_lookup
      optional_or_none list_or_empty)

lemma or_none_id: "x \<noteq> Some [] \<Longrightarrow> or_none x = x"
  by (cases x) simp_all

text \<open>
  C3, as amended. Converting a metadata record with \<open>to_dict\<close> and back with
  \<open>from_dict\<close> gives a record with the same \<^verbatim>\<open>titel\<close> and the same five lists; each of
  the six optional fields comes back unchanged unless it held the empty string, which
  comes back as \<^verbatim>\<open>None\<close>. So a record none of whose optional fields is the empty string
  comes back equal in all twelve fields.
\<close>

theorem metadata_round_trip:
  "(\<exists>m'. from_dict (to_dict m) = Some m' \<and>
      titel m' = titel m \<and>
      datum m' = (if datum m = Some [] then None else datum m) \<and>
      ort m' = (if ort m = Some [] then None else ort m) \<and>
      startzeit m' = (if startzeit m = Some [] then None else startzeit m) \<and>
      endzeit m' = (if endzeit m = Some [] then None else endzeit m) \<and>
      moderation m' = (if moderation m = Some [] then None else moderation m) \<and>
      protokoll m' = (if protokoll m = Some [] then None else protokoll m) \<and>
      teilnehmer m' = teilnehmer m \<and> gaeste m' = gaeste m \<and> agenda m' = agenda m \<and>
      ziele m' = ziele m \<and> hinweise m' = hinweise m) \<and>
   (Some [] \<notin> {datum m, ort m, startzeit m, endzeit m, moderation m, protokoll m} \<longrightarrow>
      from_dict (to_dict m) = Some m)"
proof -
  have n: "or_none x = (if x = Some [] then None else x)" for x
    by (cases x) simp_all
  show ?thesis
    by (simp add: from_dict_to_dict n)
qed

theorem metadata_round_trip_witness:
  "Some [] \<notin> {datum example_metadata, ort example_metadata, startzeit example_metadata,
      endzeit example_metadata, moderation example_metadata, protokoll example_metadata} \<and>
   from_dict (to_dict example_metadata) = Some example_metadata"
proof -
  have h: "Some [] \<notin> {datum example_metadata, ort example_metadata,
      startzeit example_metadata, endzeit example_metadata, moderation example_metadata,
      protokoll example_metadata}"
    by (simp add: example_metadata_def lit_def)
  show ?thesis
    using metadata_round_trip [of example_metadata] h by blast
qed

text \<open>
  The claim as the specification states it fails on a record whose \<^verbatim>\<open>datum\<close> is the
  empty string: the round trip returns \<^verbatim>\<open>None\<close> in that field.
\<close>

theorem metadata_round_trip_counterexample:
  "datum empty_date_metadata = Some [] \<and>
   from_dict (to_dict empty_date_metadata) = Some (empty_date_metadata\<lparr>datum := None\<rparr>)"
  by (simp add: from_dict_to_dict) (simp add: empty_date_metadata_def)

section \<open>Properties of the dashboard\<close>

subsection \<open>Scanning a text of literals for a pattern\<close>

text \<open>
  The page template is long, so the occurrences of a pattern are counted by rewrite rules
  that consume one character of a literal at a time and never look into the rest of the
  text; the congruence rules keep the simplifier out of the text still to be read.
\<close>

lemma occurrences_cong: "pat = pat' \<Longrightarrow> occurrences pat s = occurrences pat' s"
  by simp

lemma starts_with_cong: "pat = pat' \<Longrightarrow> starts_with pat s = starts_with pat' s"
  by simp

lemma occ_skip:
  "p \<noteq> c \<Longrightarrow>
   occurrences (lit (p # ps)) (lit (c # cs) @ rest) = occurrences (lit (p # ps)) (lit cs @ rest)"
  by (simp add: lit_def)

lemma occ_hit:
  "occurrences (lit (p # ps)) (lit (p # cs) @ rest) =
     (if starts_with (lit ps) (lit cs @ rest) then Suc (occurrences (lit (p # ps)) (lit cs @ rest))
      else occurrences (lit (p # ps)) (lit cs @ rest))"
  by (simp add: lit_def)

lemma occ_end: "occurrences pat (lit [] @ rest) = occurrences pat rest"
  by (simp add: lit_def)

lemma occ_code:
  "of_char p \<noteq> c \<Longrightarrow> occurrences (lit (p # ps)) ([c] @ rest) = occurrences (lit (p # ps)) rest"
  by (simp add: lit_def)

lemma occ_field:
  "of_char p \<notin> set f \<Longrightarrow> occurrences (lit (p # ps)) (f @ rest) = occurrences (lit (p # ps)) rest"
  by (induction f) (auto simp: lit_def)

lemma sw_miss: "p \<noteq> c \<Longrightarrow> starts_with (lit (p # ps)) (lit (c # cs) @ rest) = False"
  by (simp add: lit_def)

lemma sw_step:
  "starts_with (lit (p # ps)) (lit (p # cs) @ rest) = starts_with (lit ps) (lit cs @ rest)"
  by (simp add: lit_def)

lemma sw_done: "starts_with (lit []) s = True"
  by (simp add: lit_def)

lemma sw_end: "starts_with pat (lit [] @ rest) = starts_with pat rest"
  by (simp add: lit_def)

lemmas scan = occ_skip occ_hit occ_end occ_code sw_miss sw_step sw_done sw_end

lemma page_head_articles:
  "occurrences (lit ''<article>'') (page_head @ rest) = occurrences (lit ''<article>'') rest"
  unfolding page_head_def append_assoc
  by (simp add: scan cong: occurrences_cong starts_with_cong)

lemma page_tail_articles: "occurrences (lit ''<article>'') (page_tail @ rest) = occurrences (lit ''<article>'') rest"
  unfolding page_tail_def append_assoc
  by (simp add: scan cong: occurrences_cong starts_with_cong)

subsection \<open>Cards\<close>

lemma code_html_not_Nil: \<open>lit ''<code>'' @ c @ lit ''</code>'' \<noteq> []\<close>
  by (simp add: lit_def)

lemma card_no_doc:
  \<open>doc = None \<or> doc = Some [] \<Longrightarrow>
   render_card t d c doc = lit ''
      <article>
        <h2>'' @ t @ lit ''</h2>
        <p>'' @ d @ lit ''</p>
        <div class="actions">'' @ lit ''<code>'' @ c @ lit ''</code>'' @ lit ''</div>
      </article>
    ''\<close>
  using code_html_not_Nil [of c] by (auto simp: render_card_def doc_link_def Let_def)

lemma card_doc:
  \<open>u \<noteq> [] \<Longrightarrow>
   render_card t d c (Some u) = lit ''
      <article>
        <h2>'' @ t @ lit ''</h2>
        <p>'' @ d @ lit ''</p>
        <div class="actions">'' @ lit ''<a class="button" href="'' @ u @ lit ''">Dokumentation</a>'' @
     lit '' '' @ lit ''<code>'' @ c @ lit ''</code>'' @ lit ''</div>
      </article>
    ''\<close>
proof -
  assume u: "u \<noteq> []"
  have \<open>lit ''<a class="button" href="'' @ u @ lit ''">Dokumentation</a>'' \<noteq> []\<close>
    using u by simp
  then show ?thesis
    using code_html_not_Nil [of c] u by (simp add: render_card_def doc_link_def Let_def)
qed

lemma lt_char: "of_char CHR ''<'' = (60::nat)"
  by simp

lemma card_articles:
  assumes "plain_text t" "plain_text d" "plain_text c"
    and "case doc of None \<Rightarrow> True | Some u \<Rightarrow> plain_text u"
  shows "occurrences (lit ''<article>'') (render_card t d c doc @ rest) =
     Suc (occurrences (lit ''<article>'') rest)"
proof (cases "doc = None \<or> doc = Some []")
  case True
  have f: "of_char CHR ''<'' \<notin> set t" "of_char CHR ''<'' \<notin> set d" "of_char CHR ''<'' \<notin> set c"
    using assms(1-3) by (simp_all add: plain_text_def)
  show ?thesis
    unfolding card_no_doc [OF True] append_assoc
    by (simp add: scan occ_field [OF f(1)] occ_field [OF f(2)] occ_field [OF f(3)]
        cong: occurrences_cong starts_with_cong)
next
  case False
  then obtain u where u: "doc = Some u" "u \<noteq> []"
    by auto
  have f: "of_char CHR ''<'' \<notin> set t" "of_char CHR ''<'' \<notin> set d" "of_char CHR ''<'' \<notin> set c"
    "of_char CHR ''<'' \<notin> set u"
    using assms u by (simp_all add: plain_text_def)
  show ?thesis
    unfolding u(1) card_doc [OF u(2)] append_assoc
    by (simp add: scan occ_field [OF f(1)] occ_field [OF f(2)] occ_field [OF f(3)]
        occ_field [OF f(4)] cong: occurrences_cong starts_with_cong)
qed


lemma card_links:
  assumes "plain_text t" "plain_text d" "plain_text c"
    and "case doc of None \<Rightarrow> True | Some u \<Rightarrow> plain_text u"
  shows \<open>occurrences (lit ''<a class="button"'') (render_card t d c doc) =
     (if doc = None \<or> doc = Some [] then 0 else 1)\<close>
proof (cases "doc = None \<or> doc = Some []")
  case True
  have f: "of_char CHR ''<'' \<notin> set t" "of_char CHR ''<'' \<notin> set d" "of_char CHR ''<'' \<notin> set c"
    using assms(1-3) by (simp_all add: plain_text_def)
  have \<open>occurrences (lit ''<a class="button"'') (render_card t d c doc @ []) = 0\<close>
    unfolding card_no_doc [OF True] append_assoc
    by (simp add: scan occ_field [OF f(1)] occ_field [OF f(2)] occ_field [OF f(3)]
        cong: occurrences_cong starts_with_cong)
  then show ?thesis
    using True by simp
next
  case False
  then obtain u where u: "doc = Some u" "u \<noteq> []"
    by auto
  have f: "of_char CHR ''<'' \<notin> set t" "of_char CHR ''<'' \<notin> set d" "of_char CHR ''<'' \<notin> set c"
    "of_char CHR ''<'' \<notin> set u"
    using assms u by (simp_all add: plain_text_def)
  have \<open>occurrences (lit ''<a class="button"'') (render_card t d c doc @ []) = 1\<close>
    unfolding u(1) card_doc [OF u(2)] append_assoc
    by (simp add: scan occ_field [OF f(1)] occ_field [OF f(2)] occ_field [OF f(3)]
        occ_field [OF f(4)] cong: occurrences_cong starts_with_cong)
  then show ?thesis
    using False by simp
qed

lemma module_card_articles:
  "plain_module m \<Longrightarrow>
   occurrences (lit ''<article>'') (module_card m @ rest) = Suc (occurrences (lit ''<article>'') rest)"
  unfolding module_card_def by (rule card_articles) (simp_all add: plain_module_def)

lemma cards_articles:
  "\<forall>m\<in>set ms. plain_module m \<Longrightarrow>
   occurrences (lit ''<article>'') (join [newline] (map module_card ms) @ rest) =
     length ms + occurrences (lit ''<article>'') rest"
proof (induction ms rule: induct_list012)
  case 1
  show ?case by simp
next
  case (2 x)
  then show ?case by (simp add: module_card_articles)
next
  case (3 x y zs)
  have nl: "occurrences (lit ''<article>'') ([newline] @ s) = occurrences (lit ''<article>'') s" for s
    by (rule occ_code) simp
  have "occurrences (lit ''<article>'') (join [newline] (map module_card (x # y # zs)) @ rest) =
      occurrences (lit ''<article>'')
        (module_card x @ [newline] @ join [newline] (map module_card (y # zs)) @ rest)"
    by simp
  also have "\<dots> = Suc (occurrences (lit ''<article>'')
      ([newline] @ join [newline] (map module_card (y # zs)) @ rest))"
    using "3.prems" by (simp add: module_card_articles del: join.simps)
  also have "\<dots> = Suc (length (y # zs) + occurrences (lit ''<article>'') rest)"
    unfolding nl using "3.IH"(2) "3.prems" by simp
  finally show ?case by simp
qed

lemma render_dashboard_articles:
  assumes "\<forall>m\<in>set (modules_or_default modules). plain_module m"
  shows "occurrences (lit ''<article>'') (render_dashboard modules) =
     length (modules_or_default modules)"
proof -
  have "occurrences (lit ''<article>'') (page_tail @ []) = 0"
    unfolding page_tail_articles by simp
  then show ?thesis
    using assms by (simp add: render_dashboard_def page_head_articles cards_articles)
qed

lemma starts_with_contains: "starts_with pat s \<Longrightarrow> contains pat s"
proof (cases s)
  case Nil
  assume "starts_with pat s"
  then show ?thesis
    using Nil by (cases pat) simp_all
next
  case (Cons c cs)
  assume "starts_with pat s"
  then show ?thesis
    using Cons by simp
qed

lemma contains_here: "contains pat (pat @ b)"
proof -
  have "starts_with pat (pat @ b)"
    by (induction pat) simp_all
  then show ?thesis
    by (rule starts_with_contains)
qed

lemma contains_later: "contains pat s \<Longrightarrow> contains pat (a @ s)"
proof (induction a)
  case Nil
  then show ?case by simp
next
  case (Cons x a)
  then show ?case by simp
qed

lemma contains_inside: "contains pat (a @ pat @ b)"
  by (rule contains_later) (rule contains_here)

lemma join_member: "x \<in> set xs \<Longrightarrow> \<exists>a b. join sep xs = a @ x @ b"
proof (induction xs rule: induct_list012)
  case 1
  then show ?case by simp
next
  case (2 y)
  then have "join sep [y] = [] @ x @ []"
    by simp
  then show ?case by blast
next
  case (3 y z zs)
  show ?case
  proof (cases "x = y")
    case True
    then have "join sep (y # z # zs) = [] @ x @ (sep @ join sep (z # zs))"
      by simp
    then show ?thesis by blast
  next
    case False
    then obtain a b where "join sep (z # zs) = a @ x @ b"
      using 3 by auto
    then have "join sep (y # z # zs) = (y @ sep @ a) @ x @ b"
      by simp
    then show ?thesis by blast
  qed
qed

lemma default_modules_plain: "\<forall>m\<in>set default_modules. plain_module m"
  by (simp add: default_modules_def plain_module_def plain_text_def lit_def)


lemma module_card_contains:
  "contains (name m) (module_card m)"
  "contains (description m) (module_card m)"
  "contains (command m) (module_card m)"
  "contains (doc_link (documentation m)) (module_card m)"
proof -
  show "contains (name m) (module_card m)"
    unfolding module_card_def render_card_def Let_def by (rule contains_inside)
  show "contains (description m) (module_card m)"
    unfolding module_card_def render_card_def Let_def
    using contains_inside [of "description m" "_ @ name m @ _"] by simp
  have c: "contains (command m) (a @ join sep (filter P [x, lit ''<code>'' @ command m @ lit ''</code>'']) @ b)"
    if "P (lit ''<code>'' @ command m @ lit ''</code>'')" for a b x sep P
    using that contains_inside [of "command m" "a @ lit ''<code>''"]
      contains_inside [of "command m" "a @ x @ sep @ lit ''<code>''"] by simp
  show "contains (command m) (module_card m)"
    unfolding module_card_def render_card_def Let_def
    using c [of "\<lambda>s. s \<noteq> []" "_ @ name m @ _ @ description m @ _"] code_html_not_Nil by simp
  have d: "contains x (a @ join sep (filter P [x, y]) @ b)" if "x \<noteq> [] \<longrightarrow> P x" for a b x y sep P
  proof (cases "x = []")
    case True
    then show ?thesis
      using contains_inside [of "[]" "[]"] by simp
  next
    case False
    then show ?thesis
      using that contains_inside [of x a] by (cases "P y") simp_all
  qed
  show "contains (doc_link (documentation m)) (module_card m)"
    unfolding module_card_def render_card_def Let_def
    using d [of "doc_link (documentation m)" "\<lambda>s. s \<noteq> []" "_ @ name m @ _ @ description m @ _"]
    by simp
qed

lemma dashboard_contains_card:
  assumes "m \<in> set (modules_or_default modules)"
  shows "contains (module_card m) (render_dashboard modules)"
proof -
  have "module_card m \<in> set (map module_card (modules_or_default modules))"
    using assms by simp
  then obtain a b where "join [newline] (map module_card (modules_or_default modules)) = a @ module_card m @ b"
    using join_member by blast
  then have "render_dashboard modules = (page_head @ a) @ module_card m @ (b @ page_tail)"
    by (simp add: render_dashboard_def)
  then show ?thesis
    using contains_inside by metis
qed

subsection \<open>The claims about the page\<close>

text \<open>
  C6, as amended. For a non-empty list of modules whose fields are plain text (no
  \<^verbatim>\<open><\<close>), the page has exactly one \<^verbatim>\<open><article>\<close> per module; the card of every module is
  part of the page, has one \<^verbatim>\<open><article>\<close>, contains the module's name, description and
  command, and has one documentation link when the documentation is a non-empty string
  and none when it is \<^verbatim>\<open>None\<close> or empty.
\<close>

theorem render_dashboard_cards:
  assumes "modules \<noteq> []" and "\<forall>m\<in>set modules. plain_module m"
  shows \<open>occurrences (lit ''<article>'') (render_dashboard (Some modules)) = length modules \<and>
    (\<forall>m\<in>set modules.
       contains (module_card m) (render_dashboard (Some modules)) \<and>
       occurrences (lit ''<article>'') (module_card m) = 1 \<and>
       contains (name m) (module_card m) \<and>
       contains (description m) (module_card m) \<and>
       contains (command m) (module_card m) \<and>
       occurrences (lit ''<a class="button"'') (module_card m) =
         (if documentation m = None \<or> documentation m = Some [] then 0 else 1) \<and>
       (\<forall>d. documentation m = Some d \<and> d \<noteq> [] \<longrightarrow>
          contains (lit ''<a class="button" href="'' @ d @ lit ''">Dokumentation</a>'')
            (module_card m)))\<close>
proof (intro conjI ballI allI impI)
  have md: "modules_or_default (Some modules) = modules"
    using assms(1) by (simp add: modules_or_default_def)
  show "occurrences (lit ''<article>'') (render_dashboard (Some modules)) = length modules"
    using render_dashboard_articles [of "Some modules"] assms(2) by (simp add: md)
  fix m
  assume m: "m \<in> set modules"
  then have pm: "plain_module m"
    using assms(2) by simp
  show "contains (module_card m) (render_dashboard (Some modules))"
    using m dashboard_contains_card [of m "Some modules"] by (simp add: md)
  show "occurrences (lit ''<article>'') (module_card m) = 1"
    using module_card_articles [OF pm, of "[]"] by simp
  show "contains (name m) (module_card m)" "contains (description m) (module_card m)"
    "contains (command m) (module_card m)"
    by (rule module_card_contains)+
  show \<open>occurrences (lit ''<a class="button"'') (module_card m) =
      (if documentation m = None \<or> documentation m = Some [] then 0 else 1)\<close>
    unfolding module_card_def using pm by (intro card_links) (simp_all add: plain_module_def)
  fix d
  assume "documentation m = Some d \<and> d \<noteq> []"
  then have \<open>doc_link (documentation m) = lit ''<a class="button" href="'' @ d @ lit ''">Dokumentation</a>''\<close>
    by (simp add: doc_link_def)
  then show \<open>contains (lit ''<a class="button" href="'' @ d @ lit ''">Dokumentation</a>'')
      (module_card m)\<close>
    using module_card_contains(4) [of m] by simp
qed

theorem render_dashboard_cards_witness:
  \<open>example_modules \<noteq> [] \<and> list_all plain_module example_modules \<and>
   occurrences (lit ''<article>'') (render_dashboard (Some example_modules)) = 2 \<and>
   occurrences (lit ''<a class="button"'') (module_card (example_modules ! 0)) = 1 \<and>
   occurrences (lit ''<a class="button"'') (module_card (example_modules ! 1)) = 0 \<and>
   contains (lit ''<a class="button" href="README.md">Dokumentation</a>'')
     (module_card (example_modules ! 0))\<close>
proof -
  have ne: "example_modules \<noteq> []"
    by (simp add: example_modules_def)
  have pl: "\<forall>m\<in>set example_modules. plain_module m"
    by (simp add: example_modules_def plain_module_def plain_text_def lit_def)
  have d0: "documentation (example_modules ! 0) = Some (lit ''README.md'') \<and> lit ''README.md'' \<noteq> []"
    and d1: "documentation (example_modules ! 1) = None"
    and l: "length example_modules = 2"
    by (simp_all add: example_modules_def lit_def)
  have m: "example_modules ! 0 \<in> set example_modules" "example_modules ! 1 \<in> set example_modules"
    by (simp_all add: l)
  have e: \<open>lit ''<a class="button" href="'' @ lit ''README.md'' @ lit ''">Dokumentation</a>'' =
      lit ''<a class="button" href="README.md">Dokumentation</a>''\<close>
    by (simp add: lit_def)
  note th = render_dashboard_cards [OF ne pl]
  have n: "occurrences (lit ''<article>'') (render_dashboard (Some example_modules)) = 2"
    using th l by simp
  have k0: \<open>occurrences (lit ''<a class="button"'') (module_card (example_modules ! 0)) = 1\<close>
    using th m(1) d0 by (simp add: lit_def)
  have k1: \<open>occurrences (lit ''<a class="button"'') (module_card (example_modules ! 1)) = 0\<close>
    using th m(2) d1 by simp
  have \<open>contains (lit ''<a class="button" href="'' @ lit ''README.md'' @ lit ''">Dokumentation</a>'')
      (module_card (example_modules ! 0))\<close>
    using th m(1) d0 by blast
  then have c: \<open>contains (lit ''<a class="button" href="README.md">Dokumentation</a>'')
      (module_card (example_modules ! 0))\<close>
    unfolding e .
  show ?thesis
    using ne pl n k0 k1 c by (simp add: list_all_iff)
qed

text \<open>
  The claim as the specification states it fails twice. The empty list is replaced by the
  default modules, so a list of no modules gives a page with one card. And the fields are
  copied into the page unescaped, so one module whose name is \<^verbatim>\<open><article>\<close> gives a page
  with two \<^verbatim>\<open><article>\<close> tags.
\<close>

theorem render_dashboard_cards_counterexample:
  "occurrences (lit ''<article>'') (render_dashboard (Some [])) = 1 \<and>
   length ([] :: ModuleEntry list) = 0 \<and>
   occurrences (lit ''<article>'') (render_dashboard (Some [markup_module])) = 2 \<and>
   length [markup_module] = 1"
proof -
  have a: "occurrences (lit ''<article>'') (render_dashboard (Some [])) = 1"
    using render_dashboard_articles [of "Some []"] default_modules_plain
    by (simp add: modules_or_default_def) (simp add: default_modules_def)
  have t: "occurrences (lit ''<article>'') (page_tail @ []) = 0"
    unfolding page_tail_articles by simp
  have c: "occurrences (lit ''<article>'') (module_card markup_module @ rest) =
      Suc (Suc (occurrences (lit ''<article>'') rest))" for rest
    unfolding module_card_def markup_module_def ModuleEntry.simps card_no_doc [OF disjI1 [OF refl]]
      append_assoc
    by (simp add: scan cong: occurrences_cong starts_with_cong)
  have "occurrences (lit ''<article>'') (render_dashboard (Some [markup_module])) = 2"
    using t by (simp add: render_dashboard_def modules_or_default_def page_head_articles c)
  then show ?thesis
    using a by simp
qed

text \<open>
  C9. An empty sequence of modules is not rendered as an empty dashboard: both
  \<open>render_dashboard\<close> and \<open>write_dashboard\<close> replace it by the default module list, so the
  page holds one card per default module.
\<close>

theorem empty_modules_give_default_page:
  "render_dashboard (Some []) = render_dashboard (Some default_modules) \<and>
   render_dashboard None = render_dashboard (Some default_modules) \<and>
   write_dashboard resolve fs output (Some []) =
     (resolve output, fs(resolve output \<mapsto> render_dashboard (Some default_modules))) \<and>
   write_dashboard resolve fs output None =
     (resolve output, fs(resolve output \<mapsto> render_dashboard (Some default_modules))) \<and>
   default_modules \<noteq> [] \<and>
   occurrences (lit ''<article>'') (render_dashboard (Some [])) = length default_modules \<and>
   length default_modules = 1 \<and>
   contains (module_card (hd default_modules)) (render_dashboard (Some []))"
proof -
  have r: "render_dashboard (Some []) = render_dashboard (Some default_modules)"
    "render_dashboard None = render_dashboard (Some default_modules)"
    by (simp_all add: render_dashboard_def modules_or_default_def)
  have ne: "default_modules \<noteq> []" and l: "length default_modules = 1"
    by (simp_all add: default_modules_def)
  have md: "modules_or_default (Some []) = default_modules"
    by (simp add: modules_or_default_def)
  have n: "occurrences (lit ''<article>'') (render_dashboard (Some [])) = length default_modules"
    using render_dashboard_articles [of "Some []"] default_modules_plain by (simp add: md)
  have "hd default_modules \<in> set (modules_or_default (Some []))"
    using ne by (simp add: md)
  then have c: "contains (module_card (hd default_modules)) (render_dashboard (Some []))"
    by (rule dashboard_contains_card)
  have w: "write_dashboard resolve fs output (Some []) =
      (resolve output, fs(resolve output \<mapsto> render_dashboard (Some default_modules)))"
    "write_dashboard resolve fs output None =
      (resolve output, fs(resolve output \<mapsto> render_dashboard (Some default_modules)))"
    by (simp_all add: write_dashboard_def Let_def r)
  show ?thesis
    using r ne l n c w by simp
qed


section \<open>Properties of the document writer\<close>











section \<open>Properties of the pipeline\<close>

lemma and_then_Inr: "m w = (Inr x, w') \<Longrightarrow> and_then m f w = f x w'"
  by (simp add: and_then_def)

lemma and_then_Inl: "m w = (Inl e, w') \<Longrightarrow> and_then m f w = (Inl e, w')"
  by (simp add: and_then_def)

text \<open>
  C5, as amended. \<open>transcribe_audio\<close> raises \<^verbatim>\<open>FileNotFoundError\<close> exactly when the path
  does not exist, and then leaves the world as it was. A path that exists can still
  raise: a directory cannot be opened, and an exception of the service passes through.
  When the path is a file and the service answers, the adapter returns the text of the
  answer, and the rest of \<open>generate\<close> runs on that text with the whitespace at both ends
  removed.
\<close>

theorem transcribe_audio_spec:
  "(fst (transcribe_audio env p l w) = Inl (FileNotFoundError p) \<longleftrightarrow> \<not> path_exists p w) \<and>
   (p \<in> dirs w \<and> files w p = None \<longrightarrow>
      transcribe_audio env p l w = (Inl (IsADirectoryError p), w)) \<and>
   (\<forall>h n. files w p = Some h \<and> whisper_api env (calls w) h l = Inl n \<longrightarrow>
      fst (transcribe_audio env p l w) = Inl (ServiceError n)) \<and>
   (\<forall>h t. files w p = Some h \<and> whisper_api env (calls w) h l = Inr t \<longrightarrow>
      fst (transcribe_audio env p l w) = Inr (transcription_text t) \<and>
      (\<forall>w0 metadata prompt meta out st sp.
         prepare_metadata env metadata prompt w0 = (Inr meta, w) \<longrightarrow>
         generate env p out metadata l st sp prompt w0 =
           minutes_from_transcript env out meta st sp (strip (transcription_text t))
             (w\<lparr>calls := calls w @ [Transcription h l]\<rparr>)))"
proof (intro conjI allI impI)
  show "fst (transcribe_audio env p l w) = Inl (FileNotFoundError p) \<longleftrightarrow> \<not> path_exists p w"
    by (auto simp: transcribe_audio_def Let_def split: option.splits sum.splits)
  show "transcribe_audio env p l w = (Inl (IsADirectoryError p), w)"
    if "p \<in> dirs w \<and> files w p = None"
    using that by (simp add: transcribe_audio_def path_exists_def)
  show "fst (transcribe_audio env p l w) = Inl (ServiceError n)"
    if "files w p = Some h \<and> whisper_api env (calls w) h l = Inl n" for h n
    using that by (simp add: transcribe_audio_def path_exists_def Let_def)
next
  fix h t
  assume a: "files w p = Some h \<and> whisper_api env (calls w) h l = Inr t"
  then have r: "transcribe_audio env p l w =
      (Inr (transcription_text t), w\<lparr>calls := calls w @ [Transcription h l]\<rparr>)"
    by (simp add: transcribe_audio_def path_exists_def Let_def)
  then show "fst (transcribe_audio env p l w) = Inr (transcription_text t)"
    by simp
  fix w0 metadata prompt meta out st sp
  assume "prepare_metadata env metadata prompt w0 = (Inr meta, w)"
  then show "generate env p out metadata l st sp prompt w0 =
      minutes_from_transcript env out meta st sp (strip (transcription_text t))
        (w\<lparr>calls := calls w @ [Transcription h l]\<rparr>)"
    unfolding generate_def by (simp add: and_then_Inr r)
qed



theorem transcribe_audio_spec_witness:
  "files example_world (lit ''sitzung.mp3'') = Some (FileBytes [82, 73, 70, 70]) \<and>
   whisper_api example_env (calls example_world) (FileBytes [82, 73, 70, 70]) (lit ''de'') =
     Inr (AsText (lit '' \<newline>'')) \<and>
   fst (transcribe_audio example_env (lit ''sitzung.mp3'') (lit ''de'') example_world) =
     Inr (lit '' \<newline>'') \<and>
   lit ''aufnahmen'' \<in> dirs example_world \<and> files example_world (lit ''aufnahmen'') = None \<and>
   transcribe_audio example_env (lit ''aufnahmen'') (lit ''de'') example_world =
     (Inl (IsADirectoryError (lit ''aufnahmen'')), example_world)"
proof -
  have f: "files example_world (lit ''sitzung.mp3'') = Some (FileBytes [82, 73, 70, 70])"
    by (simp add: example_world_def)
  have a: "whisper_api example_env (calls example_world) (FileBytes [82, 73, 70, 70]) (lit ''de'') =
      Inr (AsText (lit '' \<newline>''))"
    by (simp add: example_env_def)
  have d: "lit ''aufnahmen'' \<in> dirs example_world \<and> files example_world (lit ''aufnahmen'') = None"
    by (simp add: example_world_def lit_def)
  have "fst (transcribe_audio example_env (lit ''sitzung.mp3'') (lit ''de'') example_world) =
      Inr (transcription_text (AsText (lit '' \<newline>'')))"
    using transcribe_audio_spec [of example_env "lit ''sitzung.mp3''" "lit ''de''" example_world]
      f a by blast
  moreover have "transcribe_audio example_env (lit ''aufnahmen'') (lit ''de'') example_world =
      (Inl (IsADirectoryError (lit ''aufnahmen'')), example_world)"
    using transcribe_audio_spec [of example_env "lit ''aufnahmen''" "lit ''de''" example_world]
      d by blast
  ultimately show ?thesis
    using f a d by simp
qed

text \<open>
  The claim as the specification states it fails: the path of a directory exists and the
  adapter raises on it; and with an existing file the adapter raises when the service
  does.
\<close>

theorem transcribe_audio_spec_counterexample:
  "path_exists (lit ''aufnahmen'') example_world \<and>
   fst (transcribe_audio example_env (lit ''aufnahmen'') (lit ''de'') example_world) =
     Inl (IsADirectoryError (lit ''aufnahmen'')) \<and>
   path_exists (lit ''sitzung.mp3'') example_world \<and>
   fst (transcribe_audio failing_env (lit ''sitzung.mp3'') (lit ''de'') example_world) =
     Inl (ServiceError 503)"
  by (simp add: transcribe_audio_def path_exists_def example_world_def failing_env_def lit_def)







end
